theory Spec2Isabelle
  imports
    Main
    "HOL-Library.Word"
    "HOL-Library.List_Lexorder"
    "HOL-Library.Sublist"
    "HOL-Library.Multiset"
begin

section \<open>JavaScript strings\<close>

text \<open>
  A JavaScript string is a sequence of UTF-16 code units. The default \<open>Array.prototype.sort\<close>
  compares strings code unit by code unit, a proper prefix coming first: this is the
  lexicographic order on lists of 16-bit words.
\<close>

type_synonym jsstring = "16 word list"

text \<open>ASCII literals; the Polish letters of the source are written as code units.\<close>

definition asc :: "string \<Rightarrow> jsstring" where
  "asc s = map of_char s"

definition NL :: jsstring where
  "NL = [0x0A]"

text \<open>\<open>String.prototype.trim\<close> removes WhiteSpace and LineTerminator code units at both ends.\<close>

definition isWhiteSpace :: "16 word \<Rightarrow> bool" where
  "isWhiteSpace c \<longleftrightarrow>
     c \<in> set [0x09, 0x0A, 0x0B, 0x0C, 0x0D, 0x20, 0xA0, 0x1680, 0x2028, 0x2029,
              0x202F, 0x205F, 0x3000, 0xFEFF]
     \<or> (0x2000 \<le> c \<and> c \<le> 0x200A)"

definition trim :: "jsstring \<Rightarrow> jsstring" where
  "trim s = rev (dropWhile isWhiteSpace (rev (dropWhile isWhiteSpace s)))"

text \<open>
  \<open>s.split(sep)\<close> for a non-empty separator: the pieces between the occurrences of \<open>sep\<close>,
  found from left to right without overlap. \<open>cur\<close> holds the current piece, reversed.
\<close>

fun split_from :: "jsstring \<Rightarrow> jsstring \<Rightarrow> jsstring \<Rightarrow> jsstring list" where
  "split_from sep cur [] = [rev cur]"
| "split_from sep cur (c # cs) =
     (if prefix sep (c # cs) then rev cur # split_from sep [] (drop (length sep - 1) cs)
      else split_from sep (c # cur) cs)"

definition split :: "jsstring \<Rightarrow> jsstring \<Rightarrow> jsstring list" where
  "split sep s = split_from sep [] s"

text \<open>\<open>xs.join(sep)\<close> on an array of strings.\<close>

fun join :: "jsstring \<Rightarrow> jsstring list \<Rightarrow> jsstring" where
  "join sep [] = []"
| "join sep [x] = x"
| "join sep (x # y # ys) = x @ sep @ join sep (y # ys)"

text \<open>\<open>s.startsWith(p)\<close>.\<close>

definition startsWith :: "jsstring \<Rightarrow> jsstring \<Rightarrow> bool" where
  "startsWith s p = prefix p s"


section \<open>The parsed page\<close>

text \<open>
  The parsers read the page through cheerio selectors only. A document is what those
  selectors return:
  \<^item> a cell is a \<open>td\<close> element: \<open>firstText\<close> is \<open>$(td).contents().first().text()\<close> (empty when
    the cell has no child node), \<open>cellText\<close> is \<open>$(td).text()\<close>, and \<open>zbior\<close> lists the inner
    HTML of the \<open>.zbior\<close> elements below the cell, in document order;
  \<^item> a row is the list \<open>$(row).find('td')\<close>;
  \<^item> a district is an element of \<open>$('.dzielnica')\<close>: \<open>headerText\<close> is the text of its
    \<open>h3.dzielnicaopen\<close>, \<open>awarieRows\<close> the rows \<open>.awarie tbody tr:not(.headrow)\<close> below it;
  \<^item> \<open>awarie\<close> is \<open>None\<close> when \<open>$('#awarie')\<close> is empty, and otherwise the rows \<open>tbody tr\<close>
    below it.
  \<open>cheerio.load\<close> itself is a parameter of the parsers.
\<close>

record cell =
  firstText :: jsstring
  cellText :: jsstring
  zbior :: "jsstring list"

type_synonym row = "cell list"

record district =
  headerText :: jsstring
  awarieRows :: "row list"

record document =
  dzielnica :: "district list"
  awarie :: "row list option"

type_synonym cheerio = "jsstring \<Rightarrow> document"


section \<open>Console, environment and state\<close>

datatype level = INFO | ERROR

text \<open>One call of \<open>console.log\<close> (\<open>INFO\<close>) or \<open>console.error\<close> (\<open>ERROR\<close>) with its arguments.\<close>

type_synonym logline = "level \<times> jsstring list"

record payload =
  chat_id :: jsstring
  payload_text :: jsstring
  parse_mode :: jsstring

record item =
  outageData :: jsstring
  lastUpdated :: jsstring

text \<open>
  What the Lambda cannot change: its environment variables (\<open>None\<close> is \<open>undefined\<close>), cheerio,
  what the web answers to a GET (\<open>Inl\<close> the message of the error axios throws, \<open>Inr\<close> the
  response body), whether a POST to Telegram throws, whether DynamoDB throws on a read or a
  write of a key (a read also throws inside \<open>getPreviousOutages\<close> when the stored item has no
  \<open>outageData\<close> attribute), and the clock.
\<close>

record env =
  TELEGRAM_BOT_TOKEN :: "jsstring option"
  TELEGRAM_CHAT_ID :: "jsstring option"
  cheerio_load :: cheerio
  axios_get :: "jsstring \<Rightarrow> jsstring + jsstring"
  axios_post :: "jsstring \<Rightarrow> payload \<Rightarrow> jsstring option"
  getItem_error :: "jsstring \<Rightarrow> jsstring option"
  putItem_error :: "jsstring \<Rightarrow> jsstring option"
  toISOString_now :: jsstring

text \<open>
  What the Lambda changes: the DynamoDB table \<open>WaterOutagesUrsus\<close>, the POST requests it has
  issued to the Telegram API (in order, whether or not they succeeded) and the console.
\<close>

record state =
  table :: "jsstring \<rightharpoonup> item"
  posts :: "(jsstring \<times> payload) list"
  console :: "logline list"

definition console_log :: "jsstring list \<Rightarrow> state \<Rightarrow> state" where
  "console_log args s = s\<lparr>console := console s @ [(INFO, args)]\<rparr>"

definition console_error :: "jsstring list \<Rightarrow> state \<Rightarrow> state" where
  "console_error args s = s\<lparr>console := console s @ [(ERROR, args)]\<rparr>"

text \<open>A value is falsy when it is \<open>null\<close>, \<open>undefined\<close> or the empty string.\<close>

fun falsy :: "jsstring option \<Rightarrow> bool" where
  "falsy None = True"
| "falsy (Some s) = (s = [])"

record response =
  statusCode :: nat
  body :: jsstring
  newOutages :: "jsstring option"


section \<open>Shared helpers\<close>

definition DISTRICT_NAME :: jsstring where
  "DISTRICT_NAME = asc ''Warszawa URSUS''"

text \<open>
  \<open>addressesDiv.html().split('<br>').map(addr => addr.trim()).filter(addr => addr).sort()\<close>
\<close>

definition addresses :: "jsstring \<Rightarrow> jsstring list" where
  "addresses html = sort (filter (\<lambda>addr. addr \<noteq> []) (map trim (split (asc ''<br>'') html)))"

text \<open>The lines \<open>- address\<close> appended to an entry by \<open>addresses.forEach\<close>.\<close>

definition bullets :: "jsstring list \<Rightarrow> jsstring" where
  "bullets as = concat (map (\<lambda>address. asc ''- '' @ address @ NL) as)"

text \<open>\<open>data.Item ? data.Item.outageData.S : \<^verbatim>\<open>''\<close>\<close> in both files.\<close>

fun itemData :: "item option \<Rightarrow> jsstring" where
  "itemData (Some it) = outageData it"
| "itemData None = []"

text \<open>\<open>sendTelegramMessage\<close> is the same function in both files.\<close>

text \<open>The URL and the payload of the POST request.\<close>

definition telegramRequest :: "env \<Rightarrow> jsstring \<Rightarrow> jsstring \<times> payload" where
  "telegramRequest e txt =
     (asc ''https://api.telegram.org/bot'' @ the (TELEGRAM_BOT_TOKEN e) @ asc ''/sendMessage'',
      \<lparr>chat_id = the (TELEGRAM_CHAT_ID e), payload_text = txt, parse_mode = asc ''HTML''\<rparr>)"

definition sendTelegramMessage :: "env \<Rightarrow> jsstring \<Rightarrow> state \<Rightarrow> state" where
  "sendTelegramMessage e txt s =
     (if falsy (TELEGRAM_BOT_TOKEN e) \<or> falsy (TELEGRAM_CHAT_ID e) then
        console_error
          [asc ''Telegram Bot Token or Chat ID is not configured. Skipping notification.''] s
      else
        let (u, p) = telegramRequest e txt;
            s' = s\<lparr>posts := posts s @ [(u, p)]\<rparr>
        in (case axios_post e u p of
              None \<Rightarrow> console_log [asc ''Successfully sent message to Telegram.''] s'
            | Some msg \<Rightarrow> console_error [asc ''Error sending message to Telegram:'', msg] s'))"


section \<open>The two-category Lambda\<close>

datatype outage_type = EMERGENCY | PLANNED

fun url :: "outage_type \<Rightarrow> jsstring" where
  "url EMERGENCY = asc ''https://www.mpwik.com.pl/view/awarie''"
| "url PLANNED = asc ''https://www.mpwik.com.pl/view/planowane''"

fun dbKey :: "outage_type \<Rightarrow> jsstring" where
  "dbKey EMERGENCY = asc ''LATEST_URSUS_EMERGENCY_OUTAGES''"
| "dbKey PLANNED = asc ''LATEST_URSUS_PLANNED_OUTAGES''"

fun header :: "outage_type \<Rightarrow> jsstring" where
  "header EMERGENCY = asc ''Wy'' @ [0x142, 0x105] @ asc ''czenia awaryjne''"
| "header PLANNED = asc ''Wy'' @ [0x142, 0x105] @ asc ''czenia planowane''"

definition fetchHtmlContent :: "env \<Rightarrow> jsstring \<Rightarrow> state \<Rightarrow> jsstring option \<times> state" where
  "fetchHtmlContent e u s =
     (case axios_get e u of
        Inr data \<Rightarrow> (Some data, s)
      | Inl msg \<Rightarrow>
          (None, console_error [asc ''Error fetching HTML from '' @ u @ asc '':'', msg] s))"

subsection \<open>Planned outages\<close>

text \<open>The entry of one row with more than four cells.\<close>

definition plannedEntry :: "row \<Rightarrow> jsstring" where
  "plannedEntry cells =
     (let place = trim (firstText (cells ! 0));
          from = trim (cellText (cells ! 1));
          to = trim (cellText (cells ! 2));
          entry = asc ''<strong>'' @ place @ asc ''</strong> (od '' @ from @ asc '' do '' @ to
                    @ asc '')'' @ NL
      in (case concat (map zbior cells) of
            [] \<Rightarrow> entry
          | html # _ \<Rightarrow> entry @ bullets (addresses html)))"

text \<open>The body of the callback for a district whose heading starts with the district name.\<close>

definition districtOutages :: "district \<Rightarrow> jsstring" where
  "districtOutages d =
     join NL (sort (map plannedEntry (filter (\<lambda>cells. length cells > 4) (awarieRows d))))"

definition parseOutages :: "cheerio \<Rightarrow> jsstring \<Rightarrow> jsstring" where
  "parseOutages load html =
     foldl (\<lambda>output d.
              if startsWith (trim (headerText d)) DISTRICT_NAME then districtOutages d
              else output)
       [] (dzielnica (load html))"

subsection \<open>Emergency outages\<close>

definition statusText :: "jsstring \<Rightarrow> jsstring" where
  "statusText status = (if status = asc ''w toku'' then asc ''w trakcie'' else status)"

definition timeInfo :: "jsstring \<Rightarrow> jsstring \<Rightarrow> jsstring" where
  "timeInfo outageTime expectedResolution =
     asc ''(od '' @ outageTime @
       (if expectedResolution \<noteq> [] then asc '' do '' @ expectedResolution @ asc '')''
        else asc '', czas usuni'' @ [0x119] @ asc ''cia nieznany)'')"

text \<open>The entry of one row with at least five cells, and the four lines it logs.\<close>

definition emergencyEntry :: "row \<Rightarrow> jsstring" where
  "emergencyEntry cells =
     (let address = trim (firstText (cells ! 0));
          outageTime = trim (cellText (cells ! 2));
          expectedResolution = trim (cellText (cells ! 3));
          status = trim (cellText (cells ! 4));
          entry = asc ''<strong>'' @ address @ asc ''</strong> ''
                    @ timeInfo outageTime expectedResolution @ asc '' - '' @ statusText status
                    @ NL
      in (case zbior (cells ! 1) of
            [] \<Rightarrow> entry
          | html # _ \<Rightarrow> entry @ bullets (addresses html)))"

definition emergencyLines :: "row \<Rightarrow> logline list" where
  "emergencyLines cells =
     [(INFO, [asc ''Address: '' @ trim (firstText (cells ! 0))]),
      (INFO, [asc ''From: '' @ trim (cellText (cells ! 2))]),
      (INFO, [asc ''To: '' @ trim (cellText (cells ! 3))]),
      (INFO, [asc ''Status: '' @ trim (cellText (cells ! 4))])]"

text \<open>\<open>parseEmergencyOutages\<close> returns the lines it writes to the console and its result.\<close>

definition parseEmergencyOutages :: "cheerio \<Rightarrow> jsstring \<Rightarrow> logline list \<times> jsstring" where
  "parseEmergencyOutages load html =
     (case awarie (load html) of
        None \<Rightarrow> ([], [])
      | Some rows \<Rightarrow>
          (let rs = filter (\<lambda>cells. length cells \<ge> 5) rows
           in (concat (map emergencyLines rs), join NL (sort (map emergencyEntry rs)))))"

subsection \<open>The state store\<close>

text \<open>\<open>getPreviousOutages\<close> returns \<open>None\<close> for \<open>null\<close>.\<close>

definition getPreviousOutages :: "env \<Rightarrow> jsstring \<Rightarrow> state \<Rightarrow> jsstring option \<times> state" where
  "getPreviousOutages e k s =
     (case getItem_error e k of
        None \<Rightarrow> (Some (itemData (table s k)), s)
      | Some msg \<Rightarrow>
          (None,
           console_error
             [asc ''Error getting item with key '' @ k @ asc '' from DynamoDB:'', msg] s))"

definition saveNewOutages :: "env \<Rightarrow> jsstring \<Rightarrow> jsstring \<Rightarrow> state \<Rightarrow> state" where
  "saveNewOutages e k txt s =
     (case putItem_error e k of
        None \<Rightarrow>
          console_log [asc ''Successfully saved new data with key '' @ k @ asc '' to DynamoDB.'']
            (s\<lparr>table := (table s)(k \<mapsto> \<lparr>outageData = txt, lastUpdated = toISOString_now e\<rparr>)\<rparr>)
      | Some msg \<Rightarrow>
          console_error [asc ''Error saving item with key '' @ k @ asc '' to DynamoDB:'', msg] s)"

subsection \<open>The run of one category and the handler\<close>

text \<open>
  \<open>processOutages\<close> returns nothing: what a run did is its effect on the table, the POST
  requests and the console. Its four exits write one line each.
\<close>

definition msgFetchFailed :: "outage_type \<Rightarrow> logline" where
  "msgFetchFailed c = (ERROR, [asc ''Failed to fetch HTML for '' @ header c])"

definition msgNoOutages :: "outage_type \<Rightarrow> logline" where
  "msgNoOutages c =
     (INFO, [asc ''No outages found for '' @ [0x22] @ header c @ [0x22]
               @ asc '' in the specified district.''])"

definition msgNoChanges :: "outage_type \<Rightarrow> logline" where
  "msgNoChanges c = (INFO, [asc ''No changes detected for '' @ header c @ asc ''.''])"

definition msgNewData :: "outage_type \<Rightarrow> logline" where
  "msgNewData c =
     (INFO, [asc ''New data detected for '' @ header c @ asc ''. Notifying and updating state.''])"

definition message :: "outage_type \<Rightarrow> jsstring \<Rightarrow> jsstring" where
  "message c currentOutagesText = asc ''<b>'' @ header c @ asc ''</b>'' @ NL @ currentOutagesText"

definition say :: "logline \<Rightarrow> state \<Rightarrow> state" where
  "say l s = s\<lparr>console := console s @ [l]\<rparr>"

text \<open>
  The choice of the parser by the category; \<open>parseOutages\<close> writes nothing to the console.
\<close>

fun currentOutages :: "cheerio \<Rightarrow> outage_type \<Rightarrow> jsstring \<Rightarrow> logline list \<times> jsstring" where
  "currentOutages load EMERGENCY html = parseEmergencyOutages load html"
| "currentOutages load PLANNED html = ([], parseOutages load html)"

definition processOutages :: "env \<Rightarrow> outage_type \<Rightarrow> state \<Rightarrow> state" where
  "processOutages e c s0 =
     (let s1 = console_log [asc ''Processing: '' @ header c] s0;
          (html, s2) = fetchHtmlContent e (url c) s1
      in if falsy html then say (msgFetchFailed c) s2
         else
           let (ls, currentOutagesText) = currentOutages (cheerio_load e) c (the html);
               s3 = s2\<lparr>console := console s2 @ ls\<rparr>
           in if currentOutagesText = [] then say (msgNoOutages c) s3
              else
                let (previousOutages, s4) = getPreviousOutages e (dbKey c) s3
                in if Some currentOutagesText = previousOutages then say (msgNoChanges c) s4
                   else
                     saveNewOutages e (dbKey c) currentOutagesText
                       (sendTelegramMessage e (message c currentOutagesText)
                          (say (msgNewData c) s4)))"

definition handler :: "env \<Rightarrow> state \<Rightarrow> response \<times> state" where
  "handler e s0 =
     (let s1 = console_log [asc ''Starting water outage check...''] s0;
          s2 = processOutages e EMERGENCY s1;
          s3 = processOutages e PLANNED s2;
          s4 = console_log [asc ''Water outage check finished.''] s3
      in (\<lparr>statusCode = 200, body = asc ''Check complete.'', newOutages = None\<rparr>, s4))"


section \<open>The single-category Lambda (index.js)\<close>

definition index_URL :: jsstring where
  "index_URL = asc ''https://www.mpwik.com.pl/view/planowane''"

definition DYNAMO_PRIMARY_KEY :: jsstring where
  "DYNAMO_PRIMARY_KEY = asc ''LATEST_URSUS_OUTAGES''"

definition index_fetchHtmlContent :: "env \<Rightarrow> state \<Rightarrow> jsstring option \<times> state" where
  "index_fetchHtmlContent e s =
     (case axios_get e index_URL of
        Inr data \<Rightarrow> (Some data, s)
      | Inl msg \<Rightarrow> (None, console_error [asc ''Error fetching HTML:'', msg] s))"

text \<open>The first element pushed to \<open>outages\<close>: the heading line.\<close>

definition index_heading :: jsstring where
  "index_heading = asc ''Wy'' @ [0x142, 0x105] @ asc ''czenia planowane:'' @ NL @ NL"

definition index_entry :: "row \<Rightarrow> jsstring" where
  "index_entry cells =
     (let place = trim (firstText (cells ! 0));
          from = trim (cellText (cells ! 1));
          to = trim (cellText (cells ! 2));
          entry = asc ''<strong>'' @ place @ asc ''</strong> (z '' @ from @ asc '' do '' @ to
                    @ asc '')'' @ NL
      in (case concat (map zbior cells) of
            [] \<Rightarrow> entry
          | html # _ \<Rightarrow> entry @ bullets (addresses html)))"

definition index_lines :: "row \<Rightarrow> logline list" where
  "index_lines cells =
     (case concat (map zbior cells) of
        [] \<Rightarrow> []
      | html # _ \<Rightarrow> map (\<lambda>address. (INFO, [asc ''Address: '' @ address])) (addresses html))"

text \<open>
  \<open>parseOutages\<close> of index.js returns the lines it writes to the console and its result. The
  entries are joined in the order of the rows, after the heading line.
\<close>

definition index_parseOutages :: "cheerio \<Rightarrow> jsstring \<Rightarrow> logline list \<times> jsstring" where
  "index_parseOutages load html =
     foldl (\<lambda>(ls, output) d.
              if startsWith (trim (headerText d)) DISTRICT_NAME then
                (let rs = filter (\<lambda>cells. length cells > 4) (awarieRows d)
                 in (ls @ concat (map index_lines rs),
                     join NL (index_heading # map index_entry rs)))
              else (ls, output))
       ([], []) (dzielnica (load html))"

definition index_getPreviousOutages :: "env \<Rightarrow> state \<Rightarrow> jsstring option \<times> state" where
  "index_getPreviousOutages e s =
     (case getItem_error e DYNAMO_PRIMARY_KEY of
        None \<Rightarrow> (Some (itemData (table s DYNAMO_PRIMARY_KEY)), s)
      | Some msg \<Rightarrow> (None, console_error [asc ''Error getting item from DynamoDB:'', msg] s))"

definition index_saveNewOutages :: "env \<Rightarrow> jsstring \<Rightarrow> state \<Rightarrow> state" where
  "index_saveNewOutages e txt s =
     (case putItem_error e DYNAMO_PRIMARY_KEY of
        None \<Rightarrow>
          console_log [asc ''Successfully saved new outage data to DynamoDB.'']
            (s\<lparr>table := (table s)(DYNAMO_PRIMARY_KEY \<mapsto>
                  \<lparr>outageData = txt, lastUpdated = toISOString_now e\<rparr>)\<rparr>)
      | Some msg \<Rightarrow> console_error [asc ''Error saving item to DynamoDB:'', msg] s)"

text \<open>The four responses of the handler.\<close>

definition respFetchFailed :: response where
  "respFetchFailed =
     \<lparr>statusCode = 500, body = asc ''Failed to fetch HTML content.'', newOutages = None\<rparr>"

definition respNoOutages :: response where
  "respNoOutages = \<lparr>statusCode = 200, body = asc ''No outages found.'', newOutages = None\<rparr>"

definition respNoChanges :: response where
  "respNoChanges = \<lparr>statusCode = 200, body = asc ''No new water outages.'', newOutages = None\<rparr>"

definition respNewData :: "jsstring \<Rightarrow> response" where
  "respNewData currentOutagesText =
     \<lparr>statusCode = 200, body = asc ''New water outage data found, notified, and saved.'',
      newOutages = Some currentOutagesText\<rparr>"

definition index_handler :: "env \<Rightarrow> state \<Rightarrow> response \<times> state" where
  "index_handler e s0 =
     (let s1 = console_log [asc ''Fetching latest water outage data...''] s0;
          (html, s2) = index_fetchHtmlContent e s1
      in if falsy html then (respFetchFailed, s2)
         else
           let s3 = console_log [asc ''Parsing HTML and extracting outage information...''] s2;
               (ls, currentOutagesText) = index_parseOutages (cheerio_load e) (the html);
               s4 = s3\<lparr>console := console s3 @ ls\<rparr>
           in if currentOutagesText = [] then
                (respNoOutages,
                 console_log [asc ''No outages found for the specified district.''] s4)
              else
                let s5 = console_log [asc ''Fetching previous outage data from DynamoDB...''] s4;
                    (previousOutages, s6) = index_getPreviousOutages e s5
                in if Some currentOutagesText = previousOutages then
                     (respNoChanges, console_log [asc ''No changes detected. Exiting.''] s6)
                   else
                     (respNewData currentOutagesText,
                      index_saveNewOutages e currentOutagesText
                        (sendTelegramMessage e currentOutagesText
                           (console_log
                              [asc ''New outage data detected. Sending notification and updating DynamoDB.'']
                              s6))))"


section \<open>What a run extracts\<close>

text \<open>
  The first two steps of a run, used to state the properties of the steps that follow: the
  page is fetched and, when the fetch gives a truthy body, parsed. The value is \<open>None\<close> when
  the run stops at the fetch, and otherwise the console lines of the parser and the text it
  returns.
\<close>

definition extracts :: "env \<Rightarrow> outage_type \<Rightarrow> (logline list \<times> jsstring) option" where
  "extracts e c =
     (case axios_get e (url c) of
        Inl msg \<Rightarrow> None
      | Inr html \<Rightarrow> if html = [] then None else Some (currentOutages (cheerio_load e) c html))"

definition index_extracts :: "env \<Rightarrow> (logline list \<times> jsstring) option" where
  "index_extracts e =
     (case axios_get e index_URL of
        Inl msg \<Rightarrow> None
      | Inr html \<Rightarrow> if html = [] then None else Some (index_parseOutages (cheerio_load e) html))"

text \<open>The console lines of \<open>fetchHtmlContent\<close> in each file.\<close>

definition fetchLines :: "env \<Rightarrow> jsstring \<Rightarrow> logline list" where
  "fetchLines e u =
     (case axios_get e u of
        Inl msg \<Rightarrow> [(ERROR, [asc ''Error fetching HTML from '' @ u @ asc '':'', msg])]
      | Inr html \<Rightarrow> [])"

definition index_fetchLines :: "env \<Rightarrow> logline list" where
  "index_fetchLines e =
     (case axios_get e index_URL of
        Inl msg \<Rightarrow> [(ERROR, [asc ''Error fetching HTML:'', msg])]
      | Inr html \<Rightarrow> [])"


section \<open>Example pages, environments and states\<close>

definition td :: "string \<Rightarrow> cell" where
  "td t = \<lparr>firstText = asc t, cellText = asc t, zbior = []\<rparr>"

definition rowA :: row where
  "rowA = [td ''Keniga '', (td ''x'')\<lparr>zbior := [asc ''K 7<br> K 3 <br>'']\<rparr>,
           td ''05-01'', td [], td ''w toku'']"

definition rowB :: row where
  "rowB = [td ''Bony'', (td ''y'')\<lparr>zbior := [asc ''B 2<br>B 1'']\<rparr>,
           td ''05-02'', td ''05-03'', td ''ok'']"

definition rowShort :: row where
  "rowShort = [td ''Lokalizacja'', td ''Od'', td ''Do'']"

definition ursus :: "row list \<Rightarrow> district" where
  "ursus rows = \<lparr>headerText = asc '' Warszawa URSUS (2)'', awarieRows = rows\<rparr>"

definition wola :: district where
  "wola = \<lparr>headerText = asc ''Warszawa WOLA'', awarieRows = [rowB]\<rparr>"

text \<open>A page with the given rows in the district Ursus and in the table \<open>#awarie\<close>.\<close>

definition page :: "row list \<Rightarrow> document" where
  "page rows = \<lparr>dzielnica = [wola, ursus rows], awarie = Some rows\<rparr>"


text \<open>
  An environment in which every request succeeds and cheerio reads the document \<open>doc\<close> from
  every page.
\<close>

definition env_ok :: "document \<Rightarrow> env" where
  "env_ok doc =
     \<lparr>TELEGRAM_BOT_TOKEN = Some (asc ''T''), TELEGRAM_CHAT_ID = Some (asc ''42''),
      cheerio_load = (\<lambda>_. doc),
      axios_get = (\<lambda>_. Inr (asc ''<html>'')),
      axios_post = (\<lambda>_ _. None),
      getItem_error = (\<lambda>_. None),
      putItem_error = (\<lambda>_. None),
      toISOString_now = asc ''2024-05-01T00:00:00.000Z''\<rparr>"

definition state0 :: state where
  "state0 = \<lparr>table = Map.empty, posts = [], console = []\<rparr>"


section \<open>Properties of the parsers\<close>

lemma join_nonempty: "xs \<noteq> [] \<Longrightarrow> \<forall>x\<in>set xs. x \<noteq> [] \<Longrightarrow> join sep xs \<noteq> []"
  by (induction sep xs rule: join.induct) auto

lemma plannedEntry_nonempty: "plannedEntry cells \<noteq> []"
  by (simp add: plannedEntry_def Let_def asc_def split: list.split)

lemma emergencyEntry_nonempty: "emergencyEntry cells \<noteq> []"
  by (simp add: emergencyEntry_def Let_def asc_def split: list.split)

lemma index_heading_nonempty: "index_heading \<noteq> []"
  by (simp add: index_heading_def asc_def)



lemma join_sort_map_empty:
  fixes f :: "'a \<Rightarrow> jsstring"
  assumes "\<And>x. f x \<noteq> []"
  shows "join sep (sort (map f xs)) = [] \<longleftrightarrow> xs = []"
proof (cases "xs = []")
  case True
  then show ?thesis by simp
next
  case False
  have "length (sort (map f xs)) = length xs" by simp
  with False have "sort (map f xs) \<noteq> []" by (metis length_0_conv)
  moreover have "\<forall>x\<in>set (sort (map f xs)). x \<noteq> []" using assms by auto
  ultimately have "join sep (sort (map f xs)) \<noteq> []" by (rule join_nonempty)
  with False show ?thesis by simp
qed

lemma districtOutages_empty_iff:
  "districtOutages d = [] \<longleftrightarrow> (\<forall>cells \<in> set (awarieRows d). length cells \<le> 4)"
  by (auto simp: districtOutages_def join_sort_map_empty [OF plannedEntry_nonempty]
      filter_empty_conv not_less)

lemma parseEmergency_empty_iff:
  "snd (parseEmergencyOutages load html) = [] \<longleftrightarrow>
     (case awarie (load html) of None \<Rightarrow> True | Some rows \<Rightarrow> \<forall>cells \<in> set rows. length cells < 5)"
  by (auto simp: parseEmergencyOutages_def Let_def join_sort_map_empty [OF emergencyEntry_nonempty]
      filter_empty_conv not_le split: option.splits)



lemma parseOutages_last_match:
  assumes "dzielnica (load html) = dsa @ d # dsb"
    and "startsWith (trim (headerText d)) DISTRICT_NAME"
    and "\<forall>d' \<in> set dsb. \<not> startsWith (trim (headerText d')) DISTRICT_NAME"
  shows "parseOutages load html = districtOutages d"
proof -
  have "\<forall>d' \<in> set dsb. \<not> startsWith (trim (headerText d')) DISTRICT_NAME \<Longrightarrow>
        foldl (\<lambda>output d. if startsWith (trim (headerText d)) DISTRICT_NAME then districtOutages d
              else output) out dsb = out" for out
    by (induction dsb rule: rev_induct) auto
  with assms show ?thesis by (simp add: parseOutages_def)
qed


lemma join_Cons_nonempty: "x \<noteq> [] \<Longrightarrow> join sep (x # xs) \<noteq> []"
  by (cases xs) auto

lemma index_parseOutages_empty_iff:
  "snd (index_parseOutages load html) = [] \<longleftrightarrow>
     (\<forall>d \<in> set (dzielnica (load html)). \<not> startsWith (trim (headerText d)) DISTRICT_NAME)"
proof -
  have "snd (foldl (\<lambda>(ls, output) d.
              if startsWith (trim (headerText d)) DISTRICT_NAME then
                (let rs = filter (\<lambda>cells. length cells > 4) (awarieRows d)
                 in (ls @ concat (map index_lines rs),
                     join NL (index_heading # map index_entry rs)))
              else (ls, output)) ([], []) ds) = [] \<longleftrightarrow>
        (\<forall>d \<in> set ds. \<not> startsWith (trim (headerText d)) DISTRICT_NAME)"
    for ds :: "district list"
    by (induction ds rule: rev_induct)
      (auto simp: Let_def join_Cons_nonempty index_heading_nonempty split: prod.splits)
  then show ?thesis by (simp add: index_parseOutages_def)
qed









section \<open>The branches of a run\<close>

lemma send_table [simp]: "table (sendTelegramMessage e m s) = table s"
  by (simp add: sendTelegramMessage_def console_log_def console_error_def Let_def
      split: option.split prod.split)

lemma send_posts:
  "posts (sendTelegramMessage e m s) =
     posts s @ (if falsy (TELEGRAM_BOT_TOKEN e) \<or> falsy (TELEGRAM_CHAT_ID e) then []
                else [telegramRequest e m])"
  by (simp add: sendTelegramMessage_def console_log_def console_error_def Let_def
      split: option.split prod.split)

lemma save_table:
  "table (saveNewOutages e k t s) =
     (if putItem_error e k = None
      then (table s)(k \<mapsto> \<lparr>outageData = t, lastUpdated = toISOString_now e\<rparr>)
      else table s)"
  by (simp add: saveNewOutages_def console_log_def console_error_def split: option.split)

lemma index_save_table:
  "table (index_saveNewOutages e t s) =
     (if putItem_error e DYNAMO_PRIMARY_KEY = None
      then (table s)(DYNAMO_PRIMARY_KEY \<mapsto> \<lparr>outageData = t, lastUpdated = toISOString_now e\<rparr>)
      else table s)"
  by (simp add: index_saveNewOutages_def console_log_def console_error_def split: option.split)

lemma getPrevious_reads:
  "getItem_error e k = None \<Longrightarrow> getPreviousOutages e k s = (Some (itemData (table s k)), s)"
  by (simp add: getPreviousOutages_def)

lemma index_getPrevious_reads:
  "getItem_error e DYNAMO_PRIMARY_KEY = None \<Longrightarrow>
   index_getPreviousOutages e s = (Some (itemData (table s DYNAMO_PRIMARY_KEY)), s)"
  by (simp add: index_getPreviousOutages_def)

lemma getPrevious_fst:
  "fst (getPreviousOutages e k s) =
     (if getItem_error e k = None then Some (itemData (table s k)) else None)"
  by (simp add: getPreviousOutages_def split: option.split)

lemma index_getPrevious_fst:
  "fst (index_getPreviousOutages e s) =
     (if getItem_error e DYNAMO_PRIMARY_KEY = None then Some (itemData (table s DYNAMO_PRIMARY_KEY))
      else None)"
  by (simp add: index_getPreviousOutages_def split: option.split)

lemma getPrevious_snd:
  "snd (getPreviousOutages e k s) =
     s\<lparr>console := console s @
        (case getItem_error e k of
           None \<Rightarrow> []
         | Some msg \<Rightarrow>
             [(ERROR, [asc ''Error getting item with key '' @ k @ asc '' from DynamoDB:'', msg])])\<rparr>"
  by (simp add: getPreviousOutages_def console_error_def split: option.split)

lemma index_getPrevious_snd:
  "snd (index_getPreviousOutages e s) =
     s\<lparr>console := console s @
        (case getItem_error e DYNAMO_PRIMARY_KEY of
           None \<Rightarrow> []
         | Some msg \<Rightarrow> [(ERROR, [asc ''Error getting item from DynamoDB:'', msg])])\<rparr>"
  by (simp add: index_getPreviousOutages_def console_error_def split: option.split)

lemma save_posts [simp]: "posts (saveNewOutages e k t s) = posts s"
  by (simp add: saveNewOutages_def console_log_def console_error_def split: option.split)

lemma index_save_posts [simp]: "posts (index_saveNewOutages e t s) = posts s"
  by (simp add: index_saveNewOutages_def console_log_def console_error_def split: option.split)

lemma processOutages_stops_at_fetch:
  assumes "extracts e c = None"
  shows "processOutages e c s =
     s\<lparr>console := console s @
        (INFO, [asc ''Processing: '' @ header c]) # fetchLines e (url c) @ [msgFetchFailed c]\<rparr>"
  using assms
  by (auto simp: extracts_def fetchLines_def processOutages_def fetchHtmlContent_def
      console_log_def console_error_def say_def split: sum.splits if_splits)

lemma processOutages_parsed:
  assumes "extracts e c = Some (ls, cur)"
  shows "processOutages e c s =
     (let s3 = s\<lparr>console := console s @ (INFO, [asc ''Processing: '' @ header c]) # ls\<rparr>
      in if cur = [] then say (msgNoOutages c) s3
         else case getPreviousOutages e (dbKey c) s3 of
                (previousOutages, s4) \<Rightarrow>
                  if Some cur = previousOutages then say (msgNoChanges c) s4
                  else saveNewOutages e (dbKey c) cur
                         (sendTelegramMessage e (message c cur) (say (msgNewData c) s4)))"
  using assms
  by (auto simp: extracts_def processOutages_def fetchHtmlContent_def console_log_def Let_def
      split: sum.splits if_splits)

lemma index_handler_stops_at_fetch:
  assumes "index_extracts e = None"
  shows "index_handler e s =
     (respFetchFailed,
      s\<lparr>console := console s @
        (INFO, [asc ''Fetching latest water outage data...'']) # index_fetchLines e\<rparr>)"
  using assms
  by (auto simp: index_extracts_def index_fetchLines_def index_handler_def
      index_fetchHtmlContent_def console_log_def console_error_def split: sum.splits if_splits)

lemma index_handler_parsed:
  assumes "index_extracts e = Some (ls, cur)"
  shows "index_handler e s =
     (let s4 = s\<lparr>console := console s @
                 (INFO, [asc ''Fetching latest water outage data...'']) #
                 (INFO, [asc ''Parsing HTML and extracting outage information...'']) # ls\<rparr>
      in if cur = [] then
           (respNoOutages, console_log [asc ''No outages found for the specified district.''] s4)
         else
           case index_getPreviousOutages e
                  (console_log [asc ''Fetching previous outage data from DynamoDB...''] s4) of
             (previousOutages, s6) \<Rightarrow>
               if Some cur = previousOutages then
                 (respNoChanges, console_log [asc ''No changes detected. Exiting.''] s6)
               else
                 (respNewData cur,
                  index_saveNewOutages e cur
                    (sendTelegramMessage e cur
                       (console_log
                          [asc ''New outage data detected. Sending notification and updating DynamoDB.'']
                          s6))))"
  using assms
  by (auto simp: index_extracts_def index_handler_def index_fetchHtmlContent_def console_log_def
      Let_def split: sum.splits if_splits)




section \<open>Changed and unchanged reports, and the example pages\<close>

lemmas js_defs = asc_def NL_def trim_def isWhiteSpace_def startsWith_def split_def
  DISTRICT_NAME_def addresses_def bullets_def

lemma ursus_matches: "startsWith (trim (headerText (ursus rows))) DISTRICT_NAME"
  by (simp add: ursus_def js_defs)







lemma plannedEntry_ignores_status:
  "plannedEntry (cells[4 := (cells ! 4)\<lparr>cellText := t\<rparr>]) = plannedEntry cells"
proof -
  have "map zbior (cells[4 := (cells ! 4)\<lparr>cellText := t\<rparr>]) = map zbior cells"
  proof (rule nth_equalityI)
    show "length (map zbior (cells[4 := (cells ! 4)\<lparr>cellText := t\<rparr>])) = length (map zbior cells)"
      by simp
  next
    fix i
    assume "i < length (map zbior (cells[4 := (cells ! 4)\<lparr>cellText := t\<rparr>]))"
    then have i: "i < length cells" by simp
    show "map zbior (cells[4 := (cells ! 4)\<lparr>cellText := t\<rparr>]) ! i = map zbior cells ! i"
    proof (cases "i = 4")
      case True
      with i show ?thesis by simp
    next
      case False
      with i show ?thesis by simp
    qed
  qed
  then show ?thesis by (simp add: plannedEntry_def)
qed

lemma ex_fetch: "axios_get (env_ok doc) u = Inr (asc ''<html>'')" "asc ''<html>'' \<noteq> []"
  by (simp_all add: env_ok_def asc_def)



lemma ex_extracts:
  "extracts (env_ok doc) c = Some (currentOutages (\<lambda>_. doc) c (asc ''<html>''))"
  "index_extracts (env_ok doc) = Some (index_parseOutages (\<lambda>_. doc) (asc ''<html>''))"
  by (simp_all add: extracts_def index_extracts_def ex_fetch) (simp_all add: env_ok_def)

lemma processOutages_changed:
  assumes "extracts e c = Some (ls, cur)" "cur \<noteq> []"
    and "fst (getPreviousOutages e (dbKey c) s) \<noteq> Some cur"
  shows "processOutages e c s =
     saveNewOutages e (dbKey c) cur
       (sendTelegramMessage e (message c cur)
          (say (msgNewData c)
             (snd (getPreviousOutages e (dbKey c)
                (s\<lparr>console := console s @ (INFO, [asc ''Processing: '' @ header c]) # ls\<rparr>)))))"
proof -
  let ?s3 = "s\<lparr>console := console s @ (INFO, [asc ''Processing: '' @ header c]) # ls\<rparr>"
  have "fst (getPreviousOutages e (dbKey c) ?s3) = fst (getPreviousOutages e (dbKey c) s)"
    by (simp add: getPrevious_fst)
  with assms(3) have neq: "Some cur \<noteq> fst (getPreviousOutages e (dbKey c) ?s3)" by simp
  obtain prev s4 where g: "getPreviousOutages e (dbKey c) ?s3 = (prev, s4)"
    by (cases "getPreviousOutages e (dbKey c) ?s3")
  with neq have "Some cur \<noteq> prev" by simp
  with processOutages_parsed [OF assms(1), of s] assms(2) g
  show ?thesis by (simp add: Let_def)
qed

lemma processOutages_unchanged:
  assumes "extracts e c = Some (ls, cur)" "cur \<noteq> []"
    and "getItem_error e (dbKey c) = None" "itemData (table s (dbKey c)) = cur"
  shows "processOutages e c s =
     s\<lparr>console := console s @ (INFO, [asc ''Processing: '' @ header c]) # ls @ [msgNoChanges c]\<rparr>"
  using processOutages_parsed [OF assms(1), of s] assms(2,4)
  by (simp add: Let_def getPrevious_reads [OF assms(3)] say_def)

lemma index_handler_changed:
  assumes "index_extracts e = Some (ls, cur)" "cur \<noteq> []"
    and "fst (index_getPreviousOutages e s) \<noteq> Some cur"
  shows "index_handler e s =
     (respNewData cur,
      index_saveNewOutages e cur
        (sendTelegramMessage e cur
           (console_log
              [asc ''New outage data detected. Sending notification and updating DynamoDB.'']
              (snd (index_getPreviousOutages e
                 (s\<lparr>console := console s @
                    (INFO, [asc ''Fetching latest water outage data...'']) #
                    (INFO, [asc ''Parsing HTML and extracting outage information...'']) # ls @
                    [(INFO, [asc ''Fetching previous outage data from DynamoDB...''])]\<rparr>))))))"
proof -
  let ?s5 = "s\<lparr>console := console s @
                    (INFO, [asc ''Fetching latest water outage data...'']) #
                    (INFO, [asc ''Parsing HTML and extracting outage information...'']) # ls @
                    [(INFO, [asc ''Fetching previous outage data from DynamoDB...''])]\<rparr>"
  have "fst (index_getPreviousOutages e ?s5) = fst (index_getPreviousOutages e s)"
    by (simp add: index_getPrevious_fst)
  with assms(3) have neq: "Some cur \<noteq> fst (index_getPreviousOutages e ?s5)" by simp
  obtain prev s6 where g: "index_getPreviousOutages e ?s5 = (prev, s6)"
    by (cases "index_getPreviousOutages e ?s5")
  with neq have "Some cur \<noteq> prev" by simp
  moreover have "console_log [asc ''Fetching previous outage data from DynamoDB...'']
        (s\<lparr>console := console s @
            (INFO, [asc ''Fetching latest water outage data...'']) #
            (INFO, [asc ''Parsing HTML and extracting outage information...'']) # ls\<rparr>) = ?s5"
    by (simp add: console_log_def)
  ultimately show ?thesis
    using index_handler_parsed [OF assms(1), of s] assms(2) g by (simp add: Let_def)
qed

lemma index_handler_unchanged:
  assumes "index_extracts e = Some (ls, cur)" "cur \<noteq> []"
    and "getItem_error e DYNAMO_PRIMARY_KEY = None" "itemData (table s DYNAMO_PRIMARY_KEY) = cur"
  shows "index_handler e s =
     (respNoChanges,
      s\<lparr>console := console s @
         (INFO, [asc ''Fetching latest water outage data...'']) #
         (INFO, [asc ''Parsing HTML and extracting outage information...'']) # ls @
         [(INFO, [asc ''Fetching previous outage data from DynamoDB...'']),
          (INFO, [asc ''No changes detected. Exiting.''])]\<rparr>)"
  using index_handler_parsed [OF assms(1), of s] assms(2,4)
  by (simp add: Let_def index_getPrevious_reads [OF assms(3)] console_log_def)

lemma changed_posts:
  "posts (saveNewOutages e k cur (sendTelegramMessage e m (say l (snd (getPreviousOutages e k s))))) =
     posts s @ (if falsy (TELEGRAM_BOT_TOKEN e) \<or> falsy (TELEGRAM_CHAT_ID e) then []
                else [telegramRequest e m])"
  by (simp add: send_posts say_def getPrevious_snd)

lemma changed_table:
  "table (saveNewOutages e k cur (sendTelegramMessage e m (say l (snd (getPreviousOutages e k s))))) =
     (if putItem_error e k = None
      then (table s)(k \<mapsto> \<lparr>outageData = cur, lastUpdated = toISOString_now e\<rparr>)
      else table s)"
  by (simp add: save_table say_def getPrevious_snd)

lemma index_changed_posts:
  "posts (index_saveNewOutages e cur (sendTelegramMessage e m
      (console_log l (snd (index_getPreviousOutages e s))))) =
     posts s @ (if falsy (TELEGRAM_BOT_TOKEN e) \<or> falsy (TELEGRAM_CHAT_ID e) then []
                else [telegramRequest e m])"
  by (simp add: send_posts console_log_def index_getPrevious_snd)

lemma index_changed_table:
  "table (index_saveNewOutages e cur (sendTelegramMessage e m
      (console_log l (snd (index_getPreviousOutages e s))))) =
     (if putItem_error e DYNAMO_PRIMARY_KEY = None
      then (table s)(DYNAMO_PRIMARY_KEY \<mapsto> \<lparr>outageData = cur, lastUpdated = toISOString_now e\<rparr>)
      else table s)"
  by (simp add: index_save_table console_log_def index_getPrevious_snd)

lemma ex_planned: "parseOutages (\<lambda>_. page rows) h = districtOutages (ursus rows)"
  by (rule parseOutages_last_match [where dsa = "[wola]" and dsb = "[]"])
    (simp_all add: page_def ursus_matches)

lemma ex_planned_nonempty: "parseOutages (\<lambda>_. page (rowA # rows)) h \<noteq> []"
  by (simp add: ex_planned districtOutages_empty_iff) (simp add: ursus_def rowA_def)

lemma ex_index_nonempty: "snd (index_parseOutages (\<lambda>_. page rows) h) \<noteq> []"
  by (simp add: index_parseOutages_empty_iff page_def ursus_matches)

lemma ex_env:
  "getItem_error (env_ok doc) k = None" "putItem_error (env_ok doc) k = None"
  "\<not> falsy (TELEGRAM_BOT_TOKEN (env_ok doc))" "\<not> falsy (TELEGRAM_CHAT_ID (env_ok doc))"
  by (simp_all add: env_ok_def asc_def)

lemma ex_state0: "table state0 k = None" "posts state0 = []" "console state0 = []"
  by (simp_all add: state0_def)

lemma send_catches:
  assumes "\<not> falsy (TELEGRAM_BOT_TOKEN e)" "\<not> falsy (TELEGRAM_CHAT_ID e)"
    and "axios_post e (fst (telegramRequest e m)) (snd (telegramRequest e m)) = Some err"
  shows "sendTelegramMessage e m s =
     s\<lparr>posts := posts s @ [telegramRequest e m],
       console := console s @ [(ERROR, [asc ''Error sending message to Telegram:'', err])]\<rparr>"
  using assms
  by (cases "telegramRequest e m") (simp add: sendTelegramMessage_def console_error_def)

lemma save_fails:
  "putItem_error e k = Some msg \<Longrightarrow>
   saveNewOutages e k t s =
     s\<lparr>console := console s @
        [(ERROR, [asc ''Error saving item with key '' @ k @ asc '' to DynamoDB:'', msg])]\<rparr>"
  by (simp add: saveNewOutages_def console_error_def)

lemma index_save_fails:
  "putItem_error e DYNAMO_PRIMARY_KEY = Some msg \<Longrightarrow>
   index_saveNewOutages e t s =
     s\<lparr>console := console s @ [(ERROR, [asc ''Error saving item to DynamoDB:'', msg])]\<rparr>"
  by (simp add: index_saveNewOutages_def console_error_def)

lemma handler_unfold:
  "handler e s =
     (\<lparr>statusCode = 200, body = asc ''Check complete.'', newOutages = None\<rparr>,
      console_log [asc ''Water outage check finished.'']
        (processOutages e PLANNED
           (processOutages e EMERGENCY
              (s\<lparr>console := console s @ [(INFO, [asc ''Starting water outage check...''])]\<rparr>))))"
  by (simp add: handler_def console_log_def Let_def)

lemma index_parseOutages_last_match:
  assumes "dzielnica (load html) = dsa @ d # dsb"
    and "startsWith (trim (headerText d)) DISTRICT_NAME"
    and "\<forall>d' \<in> set dsb. \<not> startsWith (trim (headerText d')) DISTRICT_NAME"
  shows "snd (index_parseOutages load html) =
     join NL (index_heading # map index_entry (filter (\<lambda>cells. length cells > 4) (awarieRows d)))"
proof -
  let ?f = "\<lambda>(ls, output) d.
              if startsWith (trim (headerText d)) DISTRICT_NAME then
                (let rs = filter (\<lambda>cells. length cells > 4) (awarieRows d)
                 in (ls @ concat (map index_lines rs),
                     join NL (index_heading # map index_entry rs)))
              else (ls, output)"
  have keep: "foldl ?f acc dsb = acc" for acc
    using assms(3) by (induction dsb rule: rev_induct) (auto split: prod.splits)
  obtain ls0 out0 where acc: "foldl ?f ([], []) dsa = (ls0, out0)"
    by (cases "foldl ?f ([], []) dsa")
  have "index_parseOutages load html = foldl ?f (?f (foldl ?f ([], []) dsa) d) dsb"
    by (simp add: index_parseOutages_def assms(1))
  then show ?thesis
    by (simp add: keep acc assms(2) Let_def)
qed

lemma responses_differ:
  "respNoOutages \<noteq> respNoChanges" "respNoOutages \<noteq> respNewData t"
  by (simp_all add: respNoOutages_def respNoChanges_def respNewData_def asc_def)

section \<open>The claims\<close>








text \<open>
  C8. An emergency row with an end indicator renders its time range as \<open>(od X do Y)\<close> (from X
  to Y), and one without as \<open>(od X, czas usuni\<^verbatim>\<open>e\<close>cia nieznany)\<close> (from X, resolution time
  unknown); the raw status \<open>w toku\<close> is shown as \<open>w trakcie\<close> and every other status as it is.
  The entry of a planned row does not depend on the text of the status cell.
\<close>

theorem emergency_entry_rendering:
  "(trim (cellText (cells ! 3)) \<noteq> [] \<longrightarrow>
      emergencyEntry cells =
        asc ''<strong>'' @ trim (firstText (cells ! 0)) @ asc ''</strong> (od ''
          @ trim (cellText (cells ! 2)) @ asc '' do '' @ trim (cellText (cells ! 3)) @ asc '') - ''
          @ statusText (trim (cellText (cells ! 4))) @ NL
          @ (case zbior (cells ! 1) of [] \<Rightarrow> [] | html # _ \<Rightarrow> bullets (addresses html))) \<and>
   (trim (cellText (cells ! 3)) = [] \<longrightarrow>
      emergencyEntry cells =
        asc ''<strong>'' @ trim (firstText (cells ! 0)) @ asc ''</strong> (od ''
          @ trim (cellText (cells ! 2)) @ asc '', czas usuni'' @ [0x119] @ asc ''cia nieznany) - ''
          @ statusText (trim (cellText (cells ! 4))) @ NL
          @ (case zbior (cells ! 1) of [] \<Rightarrow> [] | html # _ \<Rightarrow> bullets (addresses html))) \<and>
   statusText (asc ''w toku'') = asc ''w trakcie'' \<and>
   (status \<noteq> asc ''w toku'' \<longrightarrow> statusText status = status) \<and>
   plannedEntry (cells[4 := (cells ! 4)\<lparr>cellText := t\<rparr>]) = plannedEntry cells"
  by (simp add: emergencyEntry_def timeInfo_def statusText_def Let_def asc_def
      plannedEntry_ignores_status split: list.split)

theorem emergency_entry_rendering_witness:
  "emergencyEntry rowB = asc ''<strong>Bony</strong> (od 05-02 do 05-03) - ok'' @ NL
      @ asc ''- B 1'' @ NL @ asc ''- B 2'' @ NL \<and>
   emergencyEntry rowA = asc ''<strong>Keniga</strong> (od 05-01, czas usuni'' @ [0x119]
      @ asc ''cia nieznany) - w trakcie'' @ NL @ asc ''- K 3'' @ NL @ asc ''- K 7'' @ NL \<and>
   statusText (asc ''ok'') = asc ''ok''"
proof -
  have 1: "trim (cellText (rowB ! 3)) \<noteq> []" "trim (cellText (rowA ! 3)) = []"
    "asc ''ok'' \<noteq> asc ''w toku''"
    by (simp_all add: rowA_def rowB_def td_def asc_def trim_def isWhiteSpace_def)
  have 2: "trim (firstText (rowB ! 0)) = asc ''Bony''" "trim (cellText (rowB ! 2)) = asc ''05-02''"
    "trim (cellText (rowB ! 3)) = asc ''05-03''" "trim (cellText (rowB ! 4)) = asc ''ok''"
    "zbior (rowB ! Suc 0) = [asc ''B 2<br>B 1'']"
    "trim (firstText (rowA ! 0)) = asc ''Keniga''" "trim (cellText (rowA ! 2)) = asc ''05-01''"
    "trim (cellText (rowA ! 4)) = asc ''w toku''"
    "zbior (rowA ! Suc 0) = [asc ''K 7<br> K 3 <br>'']"
    by (simp_all add: rowA_def rowB_def td_def asc_def trim_def isWhiteSpace_def)
  have 3: "bullets (addresses (asc ''B 2<br>B 1'')) = asc ''- B 1'' @ NL @ asc ''- B 2'' @ NL"
    "bullets (addresses (asc ''K 7<br> K 3 <br>'')) = asc ''- K 3'' @ NL @ asc ''- K 7'' @ NL"
    by (simp_all add: js_defs)
  from emergency_entry_rendering [of rowB "asc ''ok''"] 1
  have ok: "statusText (asc ''ok'') = asc ''ok''" by blast
  from emergency_entry_rendering [of rowB] 1
  have B: "emergencyEntry rowB =
      asc ''<strong>'' @ asc ''Bony'' @ asc ''</strong> (od '' @ asc ''05-02'' @ asc '' do ''
        @ asc ''05-03'' @ asc '') - '' @ asc ''ok'' @ NL @ asc ''- B 1'' @ NL @ asc ''- B 2'' @ NL"
    by (simp add: 2 3 ok)
  from emergency_entry_rendering [of rowA] 1
  have A: "emergencyEntry rowA =
      asc ''<strong>'' @ asc ''Keniga'' @ asc ''</strong> (od '' @ asc ''05-01''
        @ asc '', czas usuni'' @ [0x119] @ asc ''cia nieznany) - '' @ asc ''w trakcie'' @ NL
        @ asc ''- K 3'' @ NL @ asc ''- K 7'' @ NL"
    by (simp add: 2 3)
  show ?thesis unfolding A B ok by (simp add: asc_def)
qed




text \<open>
  C3. When the report extracted from the page equals the report read from the table, the run
  only writes console lines, the last one \<open>No changes detected ...\<close>: no POST is issued and
  the table is not written (index.js answers 200 \<open>No new water outages.\<close>). Hence, when a
  first run finds a report that differs from the stored one and saves it, a second run that
  extracts the same report and reads the table leaves everything but the console as the first
  run left it, and the two runs together have issued the one POST of the first run (none
  when Telegram is not configured).
\<close>

theorem unchanged_report_is_idempotent:
  "(extracts e c = Some (ls, cur) \<and> cur \<noteq> [] \<and> getItem_error e (dbKey c) = None \<and>
    itemData (table s (dbKey c)) = cur \<longrightarrow>
      processOutages e c s =
        s\<lparr>console := console s @
           (INFO, [asc ''Processing: '' @ header c]) # ls @ [msgNoChanges c]\<rparr>) \<and>
   (index_extracts e = Some (ls, cur) \<and> cur \<noteq> [] \<and> getItem_error e DYNAMO_PRIMARY_KEY = None \<and>
    itemData (table s DYNAMO_PRIMARY_KEY) = cur \<longrightarrow>
      index_handler e s =
        (respNoChanges,
         s\<lparr>console := console s @
            (INFO, [asc ''Fetching latest water outage data...'']) #
            (INFO, [asc ''Parsing HTML and extracting outage information...'']) # ls @
            [(INFO, [asc ''Fetching previous outage data from DynamoDB...'']),
             (INFO, [asc ''No changes detected. Exiting.''])]\<rparr>)) \<and>
   (extracts e c = Some (ls, cur) \<and> cur \<noteq> [] \<and>
    fst (getPreviousOutages e (dbKey c) s) \<noteq> Some cur \<and> putItem_error e (dbKey c) = None \<and>
    extracts e' c = Some (ls, cur) \<and> getItem_error e' (dbKey c) = None \<longrightarrow>
      processOutages e' c (processOutages e c s) =
        (processOutages e c s)\<lparr>console := console (processOutages e c s) @
           (INFO, [asc ''Processing: '' @ header c]) # ls @ [msgNoChanges c]\<rparr> \<and>
      posts (processOutages e' c (processOutages e c s)) =
        posts s @ (if falsy (TELEGRAM_BOT_TOKEN e) \<or> falsy (TELEGRAM_CHAT_ID e) then []
                   else [telegramRequest e (message c cur)])) \<and>
   (index_extracts e = Some (ls, cur) \<and> cur \<noteq> [] \<and>
    fst (index_getPreviousOutages e s) \<noteq> Some cur \<and> putItem_error e DYNAMO_PRIMARY_KEY = None \<and>
    index_extracts e' = Some (ls, cur) \<and> getItem_error e' DYNAMO_PRIMARY_KEY = None \<longrightarrow>
      fst (index_handler e' (snd (index_handler e s))) = respNoChanges \<and>
      table (snd (index_handler e' (snd (index_handler e s)))) = table (snd (index_handler e s)) \<and>
      posts (snd (index_handler e' (snd (index_handler e s)))) =
        posts s @ (if falsy (TELEGRAM_BOT_TOKEN e) \<or> falsy (TELEGRAM_CHAT_ID e) then []
                   else [telegramRequest e cur]))"
proof (intro conjI impI)
  assume "extracts e c = Some (ls, cur) \<and> cur \<noteq> [] \<and> getItem_error e (dbKey c) = None \<and>
    itemData (table s (dbKey c)) = cur"
  then show "processOutages e c s =
        s\<lparr>console := console s @
           (INFO, [asc ''Processing: '' @ header c]) # ls @ [msgNoChanges c]\<rparr>"
    by (simp add: processOutages_unchanged)
next
  assume "index_extracts e = Some (ls, cur) \<and> cur \<noteq> [] \<and> getItem_error e DYNAMO_PRIMARY_KEY = None \<and>
    itemData (table s DYNAMO_PRIMARY_KEY) = cur"
  then show "index_handler e s =
        (respNoChanges,
         s\<lparr>console := console s @
            (INFO, [asc ''Fetching latest water outage data...'']) #
            (INFO, [asc ''Parsing HTML and extracting outage information...'']) # ls @
            [(INFO, [asc ''Fetching previous outage data from DynamoDB...'']),
             (INFO, [asc ''No changes detected. Exiting.''])]\<rparr>)"
    by (simp add: index_handler_unchanged)
next
  assume a: "extracts e c = Some (ls, cur) \<and> cur \<noteq> [] \<and>
    fst (getPreviousOutages e (dbKey c) s) \<noteq> Some cur \<and> putItem_error e (dbKey c) = None \<and>
    extracts e' c = Some (ls, cur) \<and> getItem_error e' (dbKey c) = None"
  let ?s' = "processOutages e c s"
  from a have first: "?s' = saveNewOutages e (dbKey c) cur
       (sendTelegramMessage e (message c cur)
          (say (msgNewData c)
             (snd (getPreviousOutages e (dbKey c)
                (s\<lparr>console := console s @ (INFO, [asc ''Processing: '' @ header c]) # ls\<rparr>)))))"
    by (simp add: processOutages_changed)
  with a have "itemData (table ?s' (dbKey c)) = cur" by (simp add: changed_table)
  with a show second: "processOutages e' c ?s' =
        ?s'\<lparr>console := console ?s' @ (INFO, [asc ''Processing: '' @ header c]) # ls @ [msgNoChanges c]\<rparr>"
    by (simp add: processOutages_unchanged)
  have "posts ?s' = posts s @ (if falsy (TELEGRAM_BOT_TOKEN e) \<or> falsy (TELEGRAM_CHAT_ID e) then []
                   else [telegramRequest e (message c cur)])"
    by (simp only: first changed_posts) simp
  with second show "posts (processOutages e' c ?s') =
        posts s @ (if falsy (TELEGRAM_BOT_TOKEN e) \<or> falsy (TELEGRAM_CHAT_ID e) then []
                   else [telegramRequest e (message c cur)])"
    by simp
next
  assume a: "index_extracts e = Some (ls, cur) \<and> cur \<noteq> [] \<and>
    fst (index_getPreviousOutages e s) \<noteq> Some cur \<and> putItem_error e DYNAMO_PRIMARY_KEY = None \<and>
    index_extracts e' = Some (ls, cur) \<and> getItem_error e' DYNAMO_PRIMARY_KEY = None"
  let ?s' = "snd (index_handler e s)"
  from a have first: "index_handler e s =
     (respNewData cur,
      index_saveNewOutages e cur
        (sendTelegramMessage e cur
           (console_log
              [asc ''New outage data detected. Sending notification and updating DynamoDB.'']
              (snd (index_getPreviousOutages e
                 (s\<lparr>console := console s @
                    (INFO, [asc ''Fetching latest water outage data...'']) #
                    (INFO, [asc ''Parsing HTML and extracting outage information...'']) # ls @
                    [(INFO, [asc ''Fetching previous outage data from DynamoDB...''])]\<rparr>))))))"
    by (simp add: index_handler_changed)
  with a have "itemData (table ?s' DYNAMO_PRIMARY_KEY) = cur" by (simp add: index_changed_table)
  with a have second: "index_handler e' ?s' =
     (respNoChanges,
      ?s'\<lparr>console := console ?s' @
         (INFO, [asc ''Fetching latest water outage data...'']) #
         (INFO, [asc ''Parsing HTML and extracting outage information...'']) # ls @
         [(INFO, [asc ''Fetching previous outage data from DynamoDB...'']),
          (INFO, [asc ''No changes detected. Exiting.''])]\<rparr>)"
    by (simp add: index_handler_unchanged)
  then show "fst (index_handler e' ?s') = respNoChanges" by simp
  from second show "table (snd (index_handler e' ?s')) = table ?s'" by simp
  have "posts ?s' = posts s @ (if falsy (TELEGRAM_BOT_TOKEN e) \<or> falsy (TELEGRAM_CHAT_ID e) then []
                   else [telegramRequest e cur])"
    by (simp only: first snd_conv index_changed_posts) simp
  with second show "posts (snd (index_handler e' ?s')) =
        posts s @ (if falsy (TELEGRAM_BOT_TOKEN e) \<or> falsy (TELEGRAM_CHAT_ID e) then []
                   else [telegramRequest e cur])"
    by simp
qed


theorem unchanged_report_is_idempotent_witness:
  "(let e = env_ok (page [rowA, rowB]);
        cur = parseOutages (\<lambda>_. page [rowA, rowB]) (asc ''<html>'');
        s = state0\<lparr>table := (\<lambda>_. Some \<lparr>outageData = cur, lastUpdated = []\<rparr>)\<rparr>;
        s' = processOutages e PLANNED state0
    in processOutages e PLANNED s =
         s\<lparr>console := console s @
            (INFO, [asc ''Processing: '' @ header PLANNED]) # [] @ [msgNoChanges PLANNED]\<rparr> \<and>
       processOutages e PLANNED s' =
         s'\<lparr>console := console s' @
            (INFO, [asc ''Processing: '' @ header PLANNED]) # [] @ [msgNoChanges PLANNED]\<rparr> \<and>
       posts (processOutages e PLANNED s') = [telegramRequest e (message PLANNED cur)]) \<and>
   (let e = env_ok (page [rowA, rowB]);
        cur = snd (index_parseOutages (\<lambda>_. page [rowA, rowB]) (asc ''<html>''));
        s = state0\<lparr>table := (\<lambda>_. Some \<lparr>outageData = cur, lastUpdated = []\<rparr>)\<rparr>;
        s' = snd (index_handler e state0)
    in fst (index_handler e s) = respNoChanges \<and>
       fst (index_handler e s') = respNoChanges \<and>
       table (snd (index_handler e s')) = table s' \<and>
       posts (snd (index_handler e s')) = [telegramRequest e cur])"
proof -
  let ?e = "env_ok (page [rowA, rowB])"
  let ?cur = "parseOutages (\<lambda>_. page [rowA, rowB]) (asc ''<html>'')"
  let ?s = "state0\<lparr>table := (\<lambda>_. Some \<lparr>outageData = ?cur, lastUpdated = []\<rparr>)\<rparr>"
  let ?ils = "fst (index_parseOutages (\<lambda>_. page [rowA, rowB]) (asc ''<html>''))"
  let ?icur = "snd (index_parseOutages (\<lambda>_. page [rowA, rowB]) (asc ''<html>''))"
  let ?is = "state0\<lparr>table := (\<lambda>_. Some \<lparr>outageData = ?icur, lastUpdated = []\<rparr>)\<rparr>"
  have 1: "extracts ?e PLANNED = Some ([], ?cur) \<and> ?cur \<noteq> [] \<and>
      getItem_error ?e (dbKey PLANNED) = None \<and> itemData (table ?s (dbKey PLANNED)) = ?cur"
    by (simp add: ex_extracts ex_planned_nonempty ex_env)
  have 2: "index_extracts ?e = Some (?ils, ?icur) \<and> ?icur \<noteq> [] \<and>
      getItem_error ?e DYNAMO_PRIMARY_KEY = None \<and> itemData (table ?is DYNAMO_PRIMARY_KEY) = ?icur"
    by (simp add: ex_extracts ex_index_nonempty ex_env)
  have 3: "extracts ?e PLANNED = Some ([], ?cur) \<and> ?cur \<noteq> [] \<and>
      fst (getPreviousOutages ?e (dbKey PLANNED) state0) \<noteq> Some ?cur \<and>
      putItem_error ?e (dbKey PLANNED) = None \<and>
      extracts ?e PLANNED = Some ([], ?cur) \<and> getItem_error ?e (dbKey PLANNED) = None"
    using ex_planned_nonempty [of "[rowB]" "asc ''<html>''"]
    by (simp add: ex_extracts ex_env getPrevious_fst ex_state0)
  have 4: "index_extracts ?e = Some (?ils, ?icur) \<and> ?icur \<noteq> [] \<and>
      fst (index_getPreviousOutages ?e state0) \<noteq> Some ?icur \<and>
      putItem_error ?e DYNAMO_PRIMARY_KEY = None \<and>
      index_extracts ?e = Some (?ils, ?icur) \<and> getItem_error ?e DYNAMO_PRIMARY_KEY = None"
    using ex_index_nonempty [of "[rowA, rowB]" "asc ''<html>''"]
    by (simp add: ex_extracts ex_env index_getPrevious_fst ex_state0)
  note a = unchanged_report_is_idempotent [where e = ?e and c = PLANNED and ls = "[]"
      and cur = ?cur and s = ?s, THEN conjunct1, THEN mp, OF 1]
  note b = unchanged_report_is_idempotent [where e = ?e and ls = ?ils and cur = ?icur
      and s = ?is, THEN conjunct2, THEN conjunct1, THEN mp, OF 2]
  note c = unchanged_report_is_idempotent [where e = ?e and e' = ?e and c = PLANNED
      and ls = "[]" and cur = ?cur and s = state0,
      THEN conjunct2, THEN conjunct2, THEN conjunct1, THEN mp, OF 3]
  note d = unchanged_report_is_idempotent [where e = ?e and e' = ?e and ls = ?ils
      and cur = ?icur and s = state0,
      THEN conjunct2, THEN conjunct2, THEN conjunct2, THEN mp, OF 4]
  have c': "posts (processOutages ?e PLANNED (processOutages ?e PLANNED state0)) =
        [telegramRequest ?e (message PLANNED ?cur)]"
    using c [THEN conjunct2] by (simp add: ex_env ex_state0)
  have d': "posts (snd (index_handler ?e (snd (index_handler ?e state0)))) =
        [telegramRequest ?e ?icur]"
    using d [THEN conjunct2, THEN conjunct2] by (simp add: ex_env ex_state0)
  show ?thesis
    unfolding Let_def
    using a b c [THEN conjunct1] c' d [THEN conjunct1] d [THEN conjunct2, THEN conjunct1] d'
    by (intro conjI) simp_all
qed

text \<open>
  C6. A POST to Telegram that throws is caught inside \<open>sendTelegramMessage\<close>, which writes
  an error line and returns. Whatever the POST does, a run whose report differs from what it
  read from the table goes on to save the report, and when the save succeeds the table
  holds the report under the key of the category, so that a next run that extracts the same
  report and reads the table only writes \<open>No changes detected ...\<close>.
\<close>

theorem notification_failure_is_not_fatal:
  "(\<not> falsy (TELEGRAM_BOT_TOKEN e) \<and> \<not> falsy (TELEGRAM_CHAT_ID e) \<and>
    axios_post e (fst (telegramRequest e m)) (snd (telegramRequest e m)) = Some err \<longrightarrow>
      sendTelegramMessage e m s =
        s\<lparr>posts := posts s @ [telegramRequest e m],
          console := console s @ [(ERROR, [asc ''Error sending message to Telegram:'', err])]\<rparr>) \<and>
   (extracts e c = Some (ls, cur) \<and> cur \<noteq> [] \<and>
    fst (getPreviousOutages e (dbKey c) s) \<noteq> Some cur \<and> putItem_error e (dbKey c) = None \<and>
    extracts e' c = Some (ls, cur) \<and> getItem_error e' (dbKey c) = None \<longrightarrow>
      table (processOutages e c s) (dbKey c) =
        Some \<lparr>outageData = cur, lastUpdated = toISOString_now e\<rparr> \<and>
      processOutages e' c (processOutages e c s) =
        (processOutages e c s)\<lparr>console := console (processOutages e c s) @
           (INFO, [asc ''Processing: '' @ header c]) # ls @ [msgNoChanges c]\<rparr>) \<and>
   (index_extracts e = Some (ls, cur) \<and> cur \<noteq> [] \<and>
    fst (index_getPreviousOutages e s) \<noteq> Some cur \<and> putItem_error e DYNAMO_PRIMARY_KEY = None \<and>
    index_extracts e' = Some (ls, cur) \<and> getItem_error e' DYNAMO_PRIMARY_KEY = None \<longrightarrow>
      table (snd (index_handler e s)) DYNAMO_PRIMARY_KEY =
        Some \<lparr>outageData = cur, lastUpdated = toISOString_now e\<rparr> \<and>
      fst (index_handler e' (snd (index_handler e s))) = respNoChanges)"
proof (intro conjI impI)
  assume "\<not> falsy (TELEGRAM_BOT_TOKEN e) \<and> \<not> falsy (TELEGRAM_CHAT_ID e) \<and>
    axios_post e (fst (telegramRequest e m)) (snd (telegramRequest e m)) = Some err"
  then show "sendTelegramMessage e m s =
        s\<lparr>posts := posts s @ [telegramRequest e m],
          console := console s @ [(ERROR, [asc ''Error sending message to Telegram:'', err])]\<rparr>"
    by (simp add: send_catches)
next
  assume a: "extracts e c = Some (ls, cur) \<and> cur \<noteq> [] \<and>
    fst (getPreviousOutages e (dbKey c) s) \<noteq> Some cur \<and> putItem_error e (dbKey c) = None \<and>
    extracts e' c = Some (ls, cur) \<and> getItem_error e' (dbKey c) = None"
  let ?s' = "processOutages e c s"
  from a have first: "?s' = saveNewOutages e (dbKey c) cur
       (sendTelegramMessage e (message c cur)
          (say (msgNewData c)
             (snd (getPreviousOutages e (dbKey c)
                (s\<lparr>console := console s @ (INFO, [asc ''Processing: '' @ header c]) # ls\<rparr>)))))"
    by (simp add: processOutages_changed)
  with a show t: "table ?s' (dbKey c) = Some \<lparr>outageData = cur, lastUpdated = toISOString_now e\<rparr>"
    by (simp add: changed_table)
  then have "itemData (table ?s' (dbKey c)) = cur" by simp
  with a show "processOutages e' c ?s' =
        ?s'\<lparr>console := console ?s' @ (INFO, [asc ''Processing: '' @ header c]) # ls @ [msgNoChanges c]\<rparr>"
    by (simp add: processOutages_unchanged)
next
  assume a: "index_extracts e = Some (ls, cur) \<and> cur \<noteq> [] \<and>
    fst (index_getPreviousOutages e s) \<noteq> Some cur \<and> putItem_error e DYNAMO_PRIMARY_KEY = None \<and>
    index_extracts e' = Some (ls, cur) \<and> getItem_error e' DYNAMO_PRIMARY_KEY = None"
  let ?s' = "snd (index_handler e s)"
  from a have "index_handler e s =
     (respNewData cur,
      index_saveNewOutages e cur
        (sendTelegramMessage e cur
           (console_log
              [asc ''New outage data detected. Sending notification and updating DynamoDB.'']
              (snd (index_getPreviousOutages e
                 (s\<lparr>console := console s @
                    (INFO, [asc ''Fetching latest water outage data...'']) #
                    (INFO, [asc ''Parsing HTML and extracting outage information...'']) # ls @
                    [(INFO, [asc ''Fetching previous outage data from DynamoDB...''])]\<rparr>))))))"
    by (simp add: index_handler_changed)
  with a show t: "table ?s' DYNAMO_PRIMARY_KEY =
      Some \<lparr>outageData = cur, lastUpdated = toISOString_now e\<rparr>"
    by (simp add: index_changed_table)
  then have "itemData (table ?s' DYNAMO_PRIMARY_KEY) = cur" by simp
  with a show "fst (index_handler e' ?s') = respNoChanges"
    by (simp add: index_handler_unchanged)
qed

theorem notification_failure_is_not_fatal_witness:
  "(let e = (env_ok (page [rowA]))\<lparr>axios_post := (\<lambda>_ _. Some (asc ''timeout''))\<rparr>;
        cur = parseOutages (\<lambda>_. page [rowA]) (asc ''<html>'')
    in sendTelegramMessage e (message PLANNED cur) state0 =
         state0\<lparr>posts := posts state0 @ [telegramRequest e (message PLANNED cur)],
           console := console state0 @
             [(ERROR, [asc ''Error sending message to Telegram:'', asc ''timeout''])]\<rparr> \<and>
       table (processOutages e PLANNED state0) (dbKey PLANNED) =
         Some \<lparr>outageData = cur, lastUpdated = toISOString_now e\<rparr> \<and>
       processOutages (env_ok (page [rowA])) PLANNED (processOutages e PLANNED state0) =
         (processOutages e PLANNED state0)\<lparr>console := console (processOutages e PLANNED state0) @
            (INFO, [asc ''Processing: '' @ header PLANNED]) # [] @ [msgNoChanges PLANNED]\<rparr>) \<and>
   (let e = (env_ok (page [rowA]))\<lparr>axios_post := (\<lambda>_ _. Some (asc ''timeout''))\<rparr>;
        cur = snd (index_parseOutages (\<lambda>_. page [rowA]) (asc ''<html>''))
    in table (snd (index_handler e state0)) DYNAMO_PRIMARY_KEY =
         Some \<lparr>outageData = cur, lastUpdated = toISOString_now e\<rparr> \<and>
       fst (index_handler (env_ok (page [rowA])) (snd (index_handler e state0))) = respNoChanges)"
proof -
  let ?e = "(env_ok (page [rowA]))\<lparr>axios_post := (\<lambda>_ _. Some (asc ''timeout''))\<rparr>"
  let ?e' = "env_ok (page [rowA])"
  let ?cur = "parseOutages (\<lambda>_. page [rowA]) (asc ''<html>'')"
  let ?ils = "fst (index_parseOutages (\<lambda>_. page [rowA]) (asc ''<html>''))"
  let ?icur = "snd (index_parseOutages (\<lambda>_. page [rowA]) (asc ''<html>''))"
  have same: "extracts ?e = extracts ?e'" "index_extracts ?e = index_extracts ?e'"
    "getPreviousOutages ?e = getPreviousOutages ?e'"
    "index_getPreviousOutages ?e = index_getPreviousOutages ?e'"
    "putItem_error ?e = putItem_error ?e'"
    by (auto simp: extracts_def index_extracts_def getPreviousOutages_def
        index_getPreviousOutages_def fun_eq_iff env_ok_def)
  have 1: "\<not> falsy (TELEGRAM_BOT_TOKEN ?e) \<and> \<not> falsy (TELEGRAM_CHAT_ID ?e) \<and>
      axios_post ?e (fst (telegramRequest ?e (message PLANNED ?cur)))
        (snd (telegramRequest ?e (message PLANNED ?cur))) = Some (asc ''timeout'')"
    by (simp add: env_ok_def asc_def)
  have 2: "extracts ?e PLANNED = Some ([], ?cur) \<and> ?cur \<noteq> [] \<and>
      fst (getPreviousOutages ?e (dbKey PLANNED) state0) \<noteq> Some ?cur \<and>
      putItem_error ?e (dbKey PLANNED) = None \<and>
      extracts ?e' PLANNED = Some ([], ?cur) \<and> getItem_error ?e' (dbKey PLANNED) = None"
    using ex_planned_nonempty [of "[]" "asc ''<html>''"]
    by (simp add: same ex_extracts ex_env getPrevious_fst ex_state0)
  have 3: "index_extracts ?e = Some (?ils, ?icur) \<and> ?icur \<noteq> [] \<and>
      fst (index_getPreviousOutages ?e state0) \<noteq> Some ?icur \<and>
      putItem_error ?e DYNAMO_PRIMARY_KEY = None \<and>
      index_extracts ?e' = Some (?ils, ?icur) \<and> getItem_error ?e' DYNAMO_PRIMARY_KEY = None"
    using ex_index_nonempty [of "[rowA]" "asc ''<html>''"]
    by (simp add: same ex_extracts ex_env index_getPrevious_fst ex_state0)
  note a = notification_failure_is_not_fatal [where e = ?e and m = "message PLANNED ?cur"
      and err = "asc ''timeout''" and s = state0, THEN conjunct1, THEN mp, OF 1]
  note b = notification_failure_is_not_fatal [where e = ?e and e' = ?e' and c = PLANNED
      and ls = "[]" and cur = ?cur and s = state0, THEN conjunct2, THEN conjunct1, THEN mp, OF 2]
  note c = notification_failure_is_not_fatal [where e = ?e and e' = ?e' and ls = ?ils
      and cur = ?icur and s = state0, THEN conjunct2, THEN conjunct2, THEN mp, OF 3]
  show ?thesis
    unfolding Let_def
    using a b [THEN conjunct1] b [THEN conjunct2] c [THEN conjunct1] c [THEN conjunct2]
    by (intro conjI) simp_all
qed

text \<open>
  C9. When the save of a changed report throws, the error is caught inside \<open>saveNewOutages\<close>
  and reported as the last console line of the run (an error line that names the key); the
  POST issued before it stands and the table is left as it was. index.js still answers 200
  \<open>New water outage data found, notified, and saved.\<close> Since the table was not written, a
  next run that extracts the same report and reads what the first run read takes the branch
  of a changed report again: it issues the POST again and tries to save again.
\<close>

theorem store_write_failure_is_reported:
  "(extracts e c = Some (ls, cur) \<and> cur \<noteq> [] \<and>
    fst (getPreviousOutages e (dbKey c) s) \<noteq> Some cur \<and> putItem_error e (dbKey c) = Some msg \<longrightarrow>
      last (console (processOutages e c s)) =
        (ERROR, [asc ''Error saving item with key '' @ dbKey c @ asc '' to DynamoDB:'', msg]) \<and>
      table (processOutages e c s) = table s \<and>
      posts (processOutages e c s) =
        posts s @ (if falsy (TELEGRAM_BOT_TOKEN e) \<or> falsy (TELEGRAM_CHAT_ID e) then []
                   else [telegramRequest e (message c cur)]) \<and>
      (extracts e' c = Some (ls, cur) \<and> fst (getPreviousOutages e' (dbKey c) s) \<noteq> Some cur \<longrightarrow>
         processOutages e' c (processOutages e c s) =
           saveNewOutages e' (dbKey c) cur
             (sendTelegramMessage e' (message c cur)
                (say (msgNewData c)
                   (snd (getPreviousOutages e' (dbKey c)
                      ((processOutages e c s)\<lparr>console := console (processOutages e c s) @
                         (INFO, [asc ''Processing: '' @ header c]) # ls\<rparr>))))) \<and>
         posts (processOutages e' c (processOutages e c s)) =
           posts (processOutages e c s) @
             (if falsy (TELEGRAM_BOT_TOKEN e') \<or> falsy (TELEGRAM_CHAT_ID e') then []
              else [telegramRequest e' (message c cur)]))) \<and>
   (index_extracts e = Some (ls, cur) \<and> cur \<noteq> [] \<and>
    fst (index_getPreviousOutages e s) \<noteq> Some cur \<and>
    putItem_error e DYNAMO_PRIMARY_KEY = Some msg \<longrightarrow>
      fst (index_handler e s) = respNewData cur \<and>
      last (console (snd (index_handler e s))) =
        (ERROR, [asc ''Error saving item to DynamoDB:'', msg]) \<and>
      table (snd (index_handler e s)) = table s \<and>
      posts (snd (index_handler e s)) =
        posts s @ (if falsy (TELEGRAM_BOT_TOKEN e) \<or> falsy (TELEGRAM_CHAT_ID e) then []
                   else [telegramRequest e cur]) \<and>
      (index_extracts e' = Some (ls, cur) \<and> fst (index_getPreviousOutages e' s) \<noteq> Some cur \<longrightarrow>
         fst (index_handler e' (snd (index_handler e s))) = respNewData cur \<and>
         posts (snd (index_handler e' (snd (index_handler e s)))) =
           posts (snd (index_handler e s)) @
             (if falsy (TELEGRAM_BOT_TOKEN e') \<or> falsy (TELEGRAM_CHAT_ID e') then []
              else [telegramRequest e' cur])))"
proof (intro conjI impI)
  assume a: "extracts e c = Some (ls, cur) \<and> cur \<noteq> [] \<and>
    fst (getPreviousOutages e (dbKey c) s) \<noteq> Some cur \<and> putItem_error e (dbKey c) = Some msg"
  let ?s' = "processOutages e c s"
  from a have first: "?s' = saveNewOutages e (dbKey c) cur
       (sendTelegramMessage e (message c cur)
          (say (msgNewData c)
             (snd (getPreviousOutages e (dbKey c)
                (s\<lparr>console := console s @ (INFO, [asc ''Processing: '' @ header c]) # ls\<rparr>)))))"
    by (simp add: processOutages_changed)
  with a show "last (console ?s') =
        (ERROR, [asc ''Error saving item with key '' @ dbKey c @ asc '' to DynamoDB:'', msg])"
    by (simp add: save_fails)
  from first a show t: "table ?s' = table s" by (simp add: changed_table)
  from first show p: "posts ?s' =
        posts s @ (if falsy (TELEGRAM_BOT_TOKEN e) \<or> falsy (TELEGRAM_CHAT_ID e) then []
                   else [telegramRequest e (message c cur)])"
    by (simp only: changed_posts) simp
  assume b: "extracts e' c = Some (ls, cur) \<and> fst (getPreviousOutages e' (dbKey c) s) \<noteq> Some cur"
  with t have "fst (getPreviousOutages e' (dbKey c) ?s') \<noteq> Some cur"
    by (auto simp: getPrevious_fst split: if_splits)
  with a b show second: "processOutages e' c ?s' =
           saveNewOutages e' (dbKey c) cur
             (sendTelegramMessage e' (message c cur)
                (say (msgNewData c)
                   (snd (getPreviousOutages e' (dbKey c)
                      (?s'\<lparr>console := console ?s' @
                         (INFO, [asc ''Processing: '' @ header c]) # ls\<rparr>)))))"
    by (simp add: processOutages_changed)
  show "posts (processOutages e' c ?s') =
           posts ?s' @
             (if falsy (TELEGRAM_BOT_TOKEN e') \<or> falsy (TELEGRAM_CHAT_ID e') then []
              else [telegramRequest e' (message c cur)])"
    by (simp only: second changed_posts) simp
next
  assume a: "index_extracts e = Some (ls, cur) \<and> cur \<noteq> [] \<and>
    fst (index_getPreviousOutages e s) \<noteq> Some cur \<and>
    putItem_error e DYNAMO_PRIMARY_KEY = Some msg"
  let ?s' = "snd (index_handler e s)"
  from a have first: "index_handler e s =
     (respNewData cur,
      index_saveNewOutages e cur
        (sendTelegramMessage e cur
           (console_log
              [asc ''New outage data detected. Sending notification and updating DynamoDB.'']
              (snd (index_getPreviousOutages e
                 (s\<lparr>console := console s @
                    (INFO, [asc ''Fetching latest water outage data...'']) #
                    (INFO, [asc ''Parsing HTML and extracting outage information...'']) # ls @
                    [(INFO, [asc ''Fetching previous outage data from DynamoDB...''])]\<rparr>))))))"
    by (simp add: index_handler_changed)
  then show "fst (index_handler e s) = respNewData cur" by simp
  from first a show "last (console ?s') = (ERROR, [asc ''Error saving item to DynamoDB:'', msg])"
    by (simp add: index_save_fails)
  from first a show t: "table ?s' = table s" by (simp add: index_changed_table)
  from first show p: "posts ?s' =
        posts s @ (if falsy (TELEGRAM_BOT_TOKEN e) \<or> falsy (TELEGRAM_CHAT_ID e) then []
                   else [telegramRequest e cur])"
    by (simp only: snd_conv index_changed_posts) simp
  assume b: "index_extracts e' = Some (ls, cur) \<and> fst (index_getPreviousOutages e' s) \<noteq> Some cur"
  with t have "fst (index_getPreviousOutages e' ?s') \<noteq> Some cur"
    by (auto simp: index_getPrevious_fst split: if_splits)
  with a b have second: "index_handler e' ?s' =
     (respNewData cur,
      index_saveNewOutages e' cur
        (sendTelegramMessage e' cur
           (console_log
              [asc ''New outage data detected. Sending notification and updating DynamoDB.'']
              (snd (index_getPreviousOutages e'
                 (?s'\<lparr>console := console ?s' @
                    (INFO, [asc ''Fetching latest water outage data...'']) #
                    (INFO, [asc ''Parsing HTML and extracting outage information...'']) # ls @
                    [(INFO, [asc ''Fetching previous outage data from DynamoDB...''])]\<rparr>))))))"
    by (simp add: index_handler_changed)
  then show "fst (index_handler e' ?s') = respNewData cur" by simp
  show "posts (snd (index_handler e' ?s')) =
           posts ?s' @
             (if falsy (TELEGRAM_BOT_TOKEN e') \<or> falsy (TELEGRAM_CHAT_ID e') then []
              else [telegramRequest e' cur])"
    by (simp only: second snd_conv index_changed_posts) simp
qed


theorem store_write_failure_is_reported_witness:
  "(let e = (env_ok (page [rowA]))\<lparr>putItem_error := (\<lambda>_. Some (asc ''down''))\<rparr>;
        cur = parseOutages (\<lambda>_. page [rowA]) (asc ''<html>'');
        s' = processOutages e PLANNED state0
    in last (console s') =
         (ERROR, [asc ''Error saving item with key '' @ dbKey PLANNED @ asc '' to DynamoDB:'',
                  asc ''down'']) \<and>
       table s' = table state0 \<and>
       posts s' = [telegramRequest e (message PLANNED cur)] \<and>
       posts (processOutages e PLANNED s') =
         [telegramRequest e (message PLANNED cur), telegramRequest e (message PLANNED cur)]) \<and>
   (let e = (env_ok (page [rowA]))\<lparr>putItem_error := (\<lambda>_. Some (asc ''down''))\<rparr>;
        cur = snd (index_parseOutages (\<lambda>_. page [rowA]) (asc ''<html>''));
        s' = snd (index_handler e state0)
    in fst (index_handler e state0) = respNewData cur \<and>
       last (console s') = (ERROR, [asc ''Error saving item to DynamoDB:'', asc ''down'']) \<and>
       table s' = table state0 \<and>
       posts s' = [telegramRequest e cur] \<and>
       fst (index_handler e s') = respNewData cur \<and>
       posts (snd (index_handler e s')) = [telegramRequest e cur, telegramRequest e cur])"
proof -
  let ?e = "(env_ok (page [rowA]))\<lparr>putItem_error := (\<lambda>_. Some (asc ''down''))\<rparr>"
  let ?e' = "env_ok (page [rowA])"
  let ?cur = "parseOutages (\<lambda>_. page [rowA]) (asc ''<html>'')"
  let ?ils = "fst (index_parseOutages (\<lambda>_. page [rowA]) (asc ''<html>''))"
  let ?icur = "snd (index_parseOutages (\<lambda>_. page [rowA]) (asc ''<html>''))"
  have same: "extracts ?e = extracts ?e'" "index_extracts ?e = index_extracts ?e'"
    "getPreviousOutages ?e = getPreviousOutages ?e'"
    "index_getPreviousOutages ?e = index_getPreviousOutages ?e'"
    "TELEGRAM_BOT_TOKEN ?e = TELEGRAM_BOT_TOKEN ?e'" "TELEGRAM_CHAT_ID ?e = TELEGRAM_CHAT_ID ?e'"
    by (auto simp: extracts_def index_extracts_def getPreviousOutages_def
        index_getPreviousOutages_def fun_eq_iff env_ok_def)
  have 1: "extracts ?e PLANNED = Some ([], ?cur) \<and> ?cur \<noteq> [] \<and>
      fst (getPreviousOutages ?e (dbKey PLANNED) state0) \<noteq> Some ?cur \<and>
      putItem_error ?e (dbKey PLANNED) = Some (asc ''down'')"
    using ex_planned_nonempty [of "[]" "asc ''<html>''"]
    by (simp add: same ex_extracts ex_env getPrevious_fst ex_state0)
  then have 2: "extracts ?e PLANNED = Some ([], ?cur) \<and>
      fst (getPreviousOutages ?e (dbKey PLANNED) state0) \<noteq> Some ?cur"
    by blast
  have 3: "index_extracts ?e = Some (?ils, ?icur) \<and> ?icur \<noteq> [] \<and>
      fst (index_getPreviousOutages ?e state0) \<noteq> Some ?icur \<and>
      putItem_error ?e DYNAMO_PRIMARY_KEY = Some (asc ''down'')"
    using ex_index_nonempty [of "[rowA]" "asc ''<html>''"]
    by (simp add: same ex_extracts ex_env index_getPrevious_fst ex_state0)
  then have 4: "index_extracts ?e = Some (?ils, ?icur) \<and>
      fst (index_getPreviousOutages ?e state0) \<noteq> Some ?icur"
    by blast
  note a = store_write_failure_is_reported [where e = ?e and e' = ?e and c = PLANNED
      and ls = "[]" and cur = ?cur and s = state0 and msg = "asc ''down''",
      THEN conjunct1, THEN mp, OF 1]
  note a4 = a [THEN conjunct2, THEN conjunct2, THEN conjunct2, THEN mp, OF 2, THEN conjunct2]
  note b = store_write_failure_is_reported [where e = ?e and e' = ?e and ls = ?ils
      and cur = ?icur and s = state0 and msg = "asc ''down''",
      THEN conjunct2, THEN mp, OF 3]
  note b5 = b [THEN conjunct2, THEN conjunct2, THEN conjunct2, THEN conjunct2, THEN mp, OF 4]
  have a3: "posts (processOutages ?e PLANNED state0) = [telegramRequest ?e (message PLANNED ?cur)]"
    using a [THEN conjunct2, THEN conjunct2, THEN conjunct1]
    by (simp add: same ex_env ex_state0)
  have a4': "posts (processOutages ?e PLANNED (processOutages ?e PLANNED state0)) =
      [telegramRequest ?e (message PLANNED ?cur), telegramRequest ?e (message PLANNED ?cur)]"
    using a4 by (simp add: a3 same ex_env)
  have b4: "posts (snd (index_handler ?e state0)) = [telegramRequest ?e ?icur]"
    using b [THEN conjunct2, THEN conjunct2, THEN conjunct2, THEN conjunct1]
    by (simp add: same ex_env ex_state0)
  have b6: "posts (snd (index_handler ?e (snd (index_handler ?e state0)))) =
      [telegramRequest ?e ?icur, telegramRequest ?e ?icur]"
    using b5 [THEN conjunct2] by (simp add: b4 same ex_env)
  show ?thesis
    unfolding Let_def
    using a [THEN conjunct1] a [THEN conjunct2, THEN conjunct1] a3 a4'
      b [THEN conjunct1] b [THEN conjunct2, THEN conjunct1]
      b [THEN conjunct2, THEN conjunct2, THEN conjunct1] b4 b5 [THEN conjunct1] b6
    by (intro conjI) simp_all
qed

text \<open>
  C5, counterexample. In index.js a failed fetch ends the handler with status 500.
\<close>

theorem index_fetch_failure_counterexample:
  "index_extracts ((env_ok (page [rowA]))\<lparr>axios_get := (\<lambda>_. Inl (asc ''timeout''))\<rparr>) = None \<and>
   statusCode
     (fst (index_handler ((env_ok (page [rowA]))\<lparr>axios_get := (\<lambda>_. Inl (asc ''timeout''))\<rparr>)
        state0)) = 500"
proof -
  have "index_extracts ((env_ok (page [rowA]))\<lparr>axios_get := (\<lambda>_. Inl (asc ''timeout''))\<rparr>) = None"
    by (simp add: index_extracts_def)
  then show ?thesis by (simp add: index_handler_stops_at_fetch respFetchFailed_def)
qed

text \<open>
  C5 (as amended). In the two-category Lambda a run whose fetch fails (axios throws, or the
  body is empty) writes its error lines and ends: no POST is issued and the table is not
  written. The planned category still runs after a failed emergency run, on the state that
  run left, and the handler answers 200 \<open>Check complete.\<close> whatever the runs did. In index.js a
  failed fetch ends the handler with the answer 500 \<open>Failed to fetch HTML content.\<close>, again
  without a POST or a write.
\<close>

theorem fetch_failure_ends_only_that_run:
  "(extracts e c = None \<longrightarrow>
      processOutages e c s =
        s\<lparr>console := console s @
           (INFO, [asc ''Processing: '' @ header c]) # fetchLines e (url c) @ [msgFetchFailed c]\<rparr>) \<and>
   fst (handler e s) = \<lparr>statusCode = 200, body = asc ''Check complete.'', newOutages = None\<rparr> \<and>
   (extracts e EMERGENCY = None \<longrightarrow>
      snd (handler e s) =
        console_log [asc ''Water outage check finished.'']
          (processOutages e PLANNED
             (s\<lparr>console := console s @
                (INFO, [asc ''Starting water outage check...'']) #
                (INFO, [asc ''Processing: '' @ header EMERGENCY]) #
                fetchLines e (url EMERGENCY) @ [msgFetchFailed EMERGENCY]\<rparr>))) \<and>
   (index_extracts e = None \<longrightarrow>
      index_handler e s =
        (\<lparr>statusCode = 500, body = asc ''Failed to fetch HTML content.'', newOutages = None\<rparr>,
         s\<lparr>console := console s @
            (INFO, [asc ''Fetching latest water outage data...'']) # index_fetchLines e\<rparr>))"
proof (intro conjI impI)
  assume "extracts e c = None"
  then show "processOutages e c s =
        s\<lparr>console := console s @
           (INFO, [asc ''Processing: '' @ header c]) # fetchLines e (url c) @ [msgFetchFailed c]\<rparr>"
    by (rule processOutages_stops_at_fetch)
next
  show "fst (handler e s) = \<lparr>statusCode = 200, body = asc ''Check complete.'', newOutages = None\<rparr>"
    by (simp add: handler_unfold)
next
  assume "extracts e EMERGENCY = None"
  then show "snd (handler e s) =
        console_log [asc ''Water outage check finished.'']
          (processOutages e PLANNED
             (s\<lparr>console := console s @
                (INFO, [asc ''Starting water outage check...'']) #
                (INFO, [asc ''Processing: '' @ header EMERGENCY]) #
                fetchLines e (url EMERGENCY) @ [msgFetchFailed EMERGENCY]\<rparr>))"
    by (simp add: handler_unfold processOutages_stops_at_fetch)
next
  assume "index_extracts e = None"
  then show "index_handler e s =
        (\<lparr>statusCode = 500, body = asc ''Failed to fetch HTML content.'', newOutages = None\<rparr>,
         s\<lparr>console := console s @
            (INFO, [asc ''Fetching latest water outage data...'']) # index_fetchLines e\<rparr>)"
    by (simp add: index_handler_stops_at_fetch respFetchFailed_def)
qed

theorem fetch_failure_ends_only_that_run_witness:
  "(let e = (env_ok (page [rowA]))\<lparr>axios_get := (\<lambda>u. if u = url EMERGENCY then Inl (asc ''timeout'')
                                                   else Inr [])\<rparr>
    in processOutages e EMERGENCY state0 =
         state0\<lparr>console := console state0 @
            (INFO, [asc ''Processing: '' @ header EMERGENCY]) #
            fetchLines e (url EMERGENCY) @ [msgFetchFailed EMERGENCY]\<rparr> \<and>
       fetchLines e (url EMERGENCY) =
         [(ERROR, [asc ''Error fetching HTML from '' @ url EMERGENCY @ asc '':'', asc ''timeout''])] \<and>
       processOutages e PLANNED state0 =
         state0\<lparr>console := console state0 @
            (INFO, [asc ''Processing: '' @ header PLANNED]) #
            fetchLines e (url PLANNED) @ [msgFetchFailed PLANNED]\<rparr> \<and>
       fetchLines e (url PLANNED) = [] \<and>
       snd (handler e state0) =
         console_log [asc ''Water outage check finished.'']
           (processOutages e PLANNED
              (state0\<lparr>console := console state0 @
                 (INFO, [asc ''Starting water outage check...'']) #
                 (INFO, [asc ''Processing: '' @ header EMERGENCY]) #
                 fetchLines e (url EMERGENCY) @ [msgFetchFailed EMERGENCY]\<rparr>)) \<and>
       index_handler e state0 =
         (\<lparr>statusCode = 500, body = asc ''Failed to fetch HTML content.'', newOutages = None\<rparr>,
          state0\<lparr>console := console state0 @
             (INFO, [asc ''Fetching latest water outage data...'']) # index_fetchLines e\<rparr>))"
proof -
  let ?e = "(env_ok (page [rowA]))\<lparr>axios_get := (\<lambda>u. if u = url EMERGENCY then Inl (asc ''timeout'')
                                                   else Inr [])\<rparr>"
  have u: "url PLANNED \<noteq> url EMERGENCY" "index_URL \<noteq> url EMERGENCY"
    by (simp_all add: index_URL_def asc_def)
  have 1: "extracts ?e EMERGENCY = None" "extracts ?e PLANNED = None" "index_extracts ?e = None"
    using u by (simp_all add: extracts_def index_extracts_def)
  have 2: "fetchLines ?e (url EMERGENCY) =
         [(ERROR, [asc ''Error fetching HTML from '' @ url EMERGENCY @ asc '':'', asc ''timeout''])]"
    "fetchLines ?e (url PLANNED) = []"
    using u by (simp_all add: fetchLines_def)
  note a = fetch_failure_ends_only_that_run [where e = ?e and c = EMERGENCY and s = state0,
      THEN conjunct1, THEN mp, OF 1(1)]
  note b = fetch_failure_ends_only_that_run [where e = ?e and c = PLANNED and s = state0,
      THEN conjunct1, THEN mp, OF 1(2)]
  note c = fetch_failure_ends_only_that_run [where e = ?e and s = state0,
      THEN conjunct2, THEN conjunct2, THEN conjunct1, THEN mp, OF 1(1)]
  note d = fetch_failure_ends_only_that_run [where e = ?e and s = state0,
      THEN conjunct2, THEN conjunct2, THEN conjunct2, THEN mp, OF 1(3)]
  show ?thesis
    unfolding Let_def
    using a b c d 2
    by (intro conjI) simp_all
qed

text \<open>
  C10. In index.js, when the last district whose heading starts with the district name has
  no row with more than four cells, \<open>parseOutages\<close> returns the heading line alone,
  \<open>Wy\<^verbatim>\<open>la\<close>czenia planowane:\<close> followed by two line feeds, which is not the empty string.
  The handler then does not answer \<open>No outages found.\<close>: it reads the table and compares; when
  the table holds the heading line it answers \<open>No new water outages.\<close>, and otherwise it
  issues the POST with the heading line as its text and saves the heading line.
\<close>

theorem index_heading_only_is_reported:
  "(dzielnica (load html) = dsa @ d # dsb \<and> startsWith (trim (headerText d)) DISTRICT_NAME \<and>
    (\<forall>d' \<in> set dsb. \<not> startsWith (trim (headerText d')) DISTRICT_NAME) \<and>
    (\<forall>cells \<in> set (awarieRows d). length cells \<le> 4) \<longrightarrow>
      snd (index_parseOutages load html) =
        asc ''Wy'' @ [0x142, 0x105] @ asc ''czenia planowane:'' @ [0x0A, 0x0A] \<and>
      snd (index_parseOutages load html) \<noteq> []) \<and>
   (index_extracts e = Some (ls, index_heading) \<longrightarrow>
      fst (index_handler e s) \<noteq> respNoOutages \<and>
      (fst (index_getPreviousOutages e s) = Some index_heading \<longrightarrow>
         fst (index_handler e s) = respNoChanges \<and>
         posts (snd (index_handler e s)) = posts s \<and>
         table (snd (index_handler e s)) = table s) \<and>
      (fst (index_getPreviousOutages e s) \<noteq> Some index_heading \<longrightarrow>
         fst (index_handler e s) = respNewData index_heading \<and>
         posts (snd (index_handler e s)) =
           posts s @ (if falsy (TELEGRAM_BOT_TOKEN e) \<or> falsy (TELEGRAM_CHAT_ID e) then []
                      else [telegramRequest e index_heading]) \<and>
         table (snd (index_handler e s)) =
           (if putItem_error e DYNAMO_PRIMARY_KEY = None
            then (table s)(DYNAMO_PRIMARY_KEY \<mapsto>
                   \<lparr>outageData = index_heading, lastUpdated = toISOString_now e\<rparr>)
            else table s)))"
proof (intro conjI impI)
  assume a: "dzielnica (load html) = dsa @ d # dsb \<and> startsWith (trim (headerText d)) DISTRICT_NAME \<and>
    (\<forall>d' \<in> set dsb. \<not> startsWith (trim (headerText d')) DISTRICT_NAME) \<and>
    (\<forall>cells \<in> set (awarieRows d). length cells \<le> 4)"
  then have "filter (\<lambda>cells. length cells > 4) (awarieRows d) = []"
    by (auto simp: filter_empty_conv)
  with a have h: "snd (index_parseOutages load html) = index_heading"
    using index_parseOutages_last_match [of load html dsa d dsb] by simp
  then show "snd (index_parseOutages load html) =
        asc ''Wy'' @ [0x142, 0x105] @ asc ''czenia planowane:'' @ [0x0A, 0x0A]"
    by (simp add: index_heading_def NL_def)
  from h show "snd (index_parseOutages load html) \<noteq> []"
    by (simp add: index_heading_nonempty)
next
  assume a: "index_extracts e = Some (ls, index_heading)"
  show "fst (index_handler e s) \<noteq> respNoOutages"
  proof (cases "fst (index_getPreviousOutages e s) = Some index_heading")
    case True
    then have "getItem_error e DYNAMO_PRIMARY_KEY = None"
      "itemData (table s DYNAMO_PRIMARY_KEY) = index_heading"
      by (auto simp: index_getPrevious_fst split: if_splits)
    with a show ?thesis
      using responses_differ(1)
      by (simp add: index_handler_unchanged index_heading_nonempty)
  next
    case False
    with a show ?thesis
      using responses_differ(2) [of index_heading]
      by (simp add: index_handler_changed index_heading_nonempty)
  qed
next
  assume a: "index_extracts e = Some (ls, index_heading)"
    and b: "fst (index_getPreviousOutages e s) = Some index_heading"
  from b have c: "getItem_error e DYNAMO_PRIMARY_KEY = None"
      "itemData (table s DYNAMO_PRIMARY_KEY) = index_heading"
    by (auto simp: index_getPrevious_fst split: if_splits)
  note u = index_handler_unchanged [OF a index_heading_nonempty c]
  from u show "fst (index_handler e s) = respNoChanges" by simp
  from u show "posts (snd (index_handler e s)) = posts s" by simp
  from u show "table (snd (index_handler e s)) = table s" by simp
next
  assume a: "index_extracts e = Some (ls, index_heading)"
    and b: "fst (index_getPreviousOutages e s) \<noteq> Some index_heading"
  note ch = index_handler_changed [OF a index_heading_nonempty b]
  from ch show "fst (index_handler e s) = respNewData index_heading" by simp
  show "posts (snd (index_handler e s)) =
           posts s @ (if falsy (TELEGRAM_BOT_TOKEN e) \<or> falsy (TELEGRAM_CHAT_ID e) then []
                      else [telegramRequest e index_heading])"
    by (simp only: ch snd_conv index_changed_posts) simp
  show "table (snd (index_handler e s)) =
           (if putItem_error e DYNAMO_PRIMARY_KEY = None
            then (table s)(DYNAMO_PRIMARY_KEY \<mapsto>
                   \<lparr>outageData = index_heading, lastUpdated = toISOString_now e\<rparr>)
            else table s)"
    by (simp only: ch snd_conv index_changed_table) simp
qed


theorem index_heading_only_is_reported_witness:
  "snd (index_parseOutages (\<lambda>_. page [rowShort]) (asc ''<html>'')) =
     asc ''Wy'' @ [0x142, 0x105] @ asc ''czenia planowane:'' @ [0x0A, 0x0A] \<and>
   (let e = env_ok (page [rowShort]);
        s = state0\<lparr>table := (\<lambda>_. Some \<lparr>outageData = index_heading, lastUpdated = []\<rparr>)\<rparr>
    in fst (index_handler e state0) \<noteq> respNoOutages \<and>
       fst (index_handler e state0) = respNewData index_heading \<and>
       posts (snd (index_handler e state0)) = [telegramRequest e index_heading] \<and>
       table (snd (index_handler e state0)) =
         (table state0)(DYNAMO_PRIMARY_KEY \<mapsto>
            \<lparr>outageData = index_heading, lastUpdated = toISOString_now e\<rparr>) \<and>
       fst (index_handler e s) = respNoChanges \<and>
       posts (snd (index_handler e s)) = posts s \<and>
       table (snd (index_handler e s)) = table s)"
proof -
  let ?e = "env_ok (page [rowShort])"
  let ?s = "state0\<lparr>table := (\<lambda>_. Some \<lparr>outageData = index_heading, lastUpdated = []\<rparr>)\<rparr>"
  let ?ls = "fst (index_parseOutages (\<lambda>_. page [rowShort]) (asc ''<html>''))"
  have 1: "dzielnica (page [rowShort]) = [wola] @ ursus [rowShort] # [] \<and>
      startsWith (trim (headerText (ursus [rowShort]))) DISTRICT_NAME \<and>
      (\<forall>d' \<in> set []. \<not> startsWith (trim (headerText d')) DISTRICT_NAME) \<and>
      (\<forall>cells \<in> set (awarieRows (ursus [rowShort])). length cells \<le> 4)"
    by (simp add: page_def ursus_matches) (simp add: ursus_def rowShort_def)
  note a = index_heading_only_is_reported [where load = "\<lambda>_. page [rowShort]"
      and html = "asc ''<html>''" and dsa = "[wola]" and d = "ursus [rowShort]" and dsb = "[]",
      THEN conjunct1, THEN mp, OF 1, THEN conjunct1]
  then have "snd (index_parseOutages (\<lambda>_. page [rowShort]) (asc ''<html>'')) = index_heading"
    by (simp add: index_heading_def NL_def)
  then have 2: "index_extracts ?e = Some (?ls, index_heading)"
    by (simp add: ex_extracts prod_eq_iff)
  have 3: "fst (index_getPreviousOutages ?e state0) \<noteq> Some index_heading"
    using index_heading_nonempty by (simp add: index_getPrevious_fst ex_env ex_state0)
  have 4: "fst (index_getPreviousOutages ?e ?s) = Some index_heading"
    by (simp add: index_getPrevious_fst ex_env)
  note b = index_heading_only_is_reported [where e = ?e and ls = ?ls and s = state0,
      THEN conjunct2, THEN mp, OF 2]
  note c = index_heading_only_is_reported [where e = ?e and ls = ?ls and s = ?s,
      THEN conjunct2, THEN mp, OF 2]
  note b3 = b [THEN conjunct2, THEN conjunct2, THEN mp, OF 3]
  note c2 = c [THEN conjunct2, THEN conjunct1, THEN mp, OF 4]
  have b3': "posts (snd (index_handler ?e state0)) = [telegramRequest ?e index_heading]"
    "table (snd (index_handler ?e state0)) =
         (table state0)(DYNAMO_PRIMARY_KEY \<mapsto>
            \<lparr>outageData = index_heading, lastUpdated = toISOString_now ?e\<rparr>)"
    using b3 by (simp_all add: ex_env ex_state0)
  show ?thesis
    unfolding Let_def
    using a b [THEN conjunct1] b3 [THEN conjunct1] b3' c2
    by (intro conjI) simp_all
qed

text \<open>
  C1. The code does not do what the claim says. \<open>getPreviousOutages\<close> returns \<open>null\<close> when the
  read throws, and \<open>processOutages\<close> compares the report with it without a check: the
  comparison is false, so the run takes the branch of a changed report. Here the table
  already holds the report of the page and the read throws: the run issues the POST and
  overwrites the item.
\<close>

theorem read_failure_notifies_and_saves:
  "(let e = (env_ok (page [rowA]))\<lparr>getItem_error := (\<lambda>_. Some (asc ''timeout''))\<rparr>;
        cur = parseOutages (\<lambda>_. page [rowA]) (asc ''<html>'');
        s = state0\<lparr>table := [dbKey PLANNED \<mapsto>
              \<lparr>outageData = cur, lastUpdated = asc ''2024-04-30T00:00:00.000Z''\<rparr>]\<rparr>;
        s' = processOutages e PLANNED s
    in extracts e PLANNED = Some ([], cur) \<and> cur \<noteq> [] \<and>
       itemData (table s (dbKey PLANNED)) = cur \<and>
       fst (getPreviousOutages e (dbKey PLANNED) s) = None \<and>
       posts s' = [telegramRequest e (message PLANNED cur)] \<and>
       table s' (dbKey PLANNED) = Some \<lparr>outageData = cur, lastUpdated = toISOString_now e\<rparr> \<and>
       console s' =
         [(INFO, [asc ''Processing: '' @ header PLANNED]),
          (ERROR, [asc ''Error getting item with key '' @ dbKey PLANNED @ asc '' from DynamoDB:'',
                   asc ''timeout'']),
          msgNewData PLANNED,
          (INFO, [asc ''Successfully sent message to Telegram.'']),
          (INFO, [asc ''Successfully saved new data with key '' @ dbKey PLANNED
                    @ asc '' to DynamoDB.''])])"
proof -
  let ?e' = "env_ok (page [rowA])"
  let ?e = "?e'\<lparr>getItem_error := (\<lambda>_. Some (asc ''timeout''))\<rparr>"
  let ?cur = "parseOutages (\<lambda>_. page [rowA]) (asc ''<html>'')"
  let ?s = "state0\<lparr>table := [dbKey PLANNED \<mapsto>
              \<lparr>outageData = ?cur, lastUpdated = asc ''2024-04-30T00:00:00.000Z''\<rparr>]\<rparr>"
  have same: "extracts ?e = extracts ?e'" "putItem_error ?e = putItem_error ?e'"
    "TELEGRAM_BOT_TOKEN ?e = TELEGRAM_BOT_TOKEN ?e'" "TELEGRAM_CHAT_ID ?e = TELEGRAM_CHAT_ID ?e'"
    "axios_post ?e = (\<lambda>_ _. None)" "toISOString_now ?e = toISOString_now ?e'"
    by (auto simp: extracts_def fun_eq_iff env_ok_def)
  have 1: "extracts ?e PLANNED = Some ([], ?cur)" "?cur \<noteq> []"
    using ex_planned_nonempty [of "[]" "asc ''<html>''"] by (simp_all add: same ex_extracts)
  have 2: "itemData (table ?s (dbKey PLANNED)) = ?cur" by simp
  have 3: "fst (getPreviousOutages ?e (dbKey PLANNED) ?s) = None"
    by (simp add: getPrevious_fst)
  then have "fst (getPreviousOutages ?e (dbKey PLANNED) ?s) \<noteq> Some ?cur" by simp
  note run = processOutages_changed [OF 1 this]
  have 4: "posts (processOutages ?e PLANNED ?s) = [telegramRequest ?e (message PLANNED ?cur)]"
    by (simp only: run changed_posts) (simp add: same ex_env ex_state0)
  have 5: "table (processOutages ?e PLANNED ?s) (dbKey PLANNED) =
      Some \<lparr>outageData = ?cur, lastUpdated = toISOString_now ?e\<rparr>"
    by (simp only: run changed_table) (simp add: same ex_env)
  have 6: "console (processOutages ?e PLANNED ?s) =
         [(INFO, [asc ''Processing: '' @ header PLANNED]),
          (ERROR, [asc ''Error getting item with key '' @ dbKey PLANNED @ asc '' from DynamoDB:'',
                   asc ''timeout'']),
          msgNewData PLANNED,
          (INFO, [asc ''Successfully sent message to Telegram.'']),
          (INFO, [asc ''Successfully saved new data with key '' @ dbKey PLANNED
                    @ asc '' to DynamoDB.''])]"
    unfolding run
    by (cases "telegramRequest ?e (message PLANNED ?cur)")
      (simp add: saveNewOutages_def sendTelegramMessage_def getPrevious_snd say_def
        console_log_def same ex_env ex_state0)
  show ?thesis
    unfolding Let_def
    using 1 2 3 4 5 6 by (intro conjI)
qed

end
